theory Spec2Isabelle
  imports Complex_Main
begin

section \<open>Data model of the trade simulator (modules/simulator.py)\<close>

text \<open>
  Prices, capital and rates are Python floats in the source; they are modelled as
  exact reals, share counts as integers. A timestamp is a timezone-naive pandas
  Timestamp, modelled by its value: the number of nanoseconds since the epoch.
  The exceptions the simulator can raise are values of \<open>error\<close>.

  Two properties depend on what a float is beyond a real number, and each has a model of
  its own further down: the rounding of the additions that accumulate the capital
  (section "The capital accumulators in double arithmetic"), and the behaviour of the
  loop on NaN and the infinities (section "The bar loop over IEEE special values",
  where \<open>int\<close> of a NaN quotient raises \<open>ValueError\<close>).
\<close>

datatype error = KeyError | ZeroDivisionError | ValueError

definition bind_err :: "error + 'a \<Rightarrow> ('a \<Rightarrow> error + 'b) \<Rightarrow> error + 'b" where
  "bind_err m f = (case m of Inl e \<Rightarrow> Inl e | Inr x \<Rightarrow> f x)"

type_synonym charges_config = "string \<rightharpoonup> (string \<rightharpoonup> real)"

record charges_details =
  total_charges :: real
  brokerage :: real
  stt :: real
  transaction_charge :: real
  sebi_charge :: real
  gst :: real
  stamp_duty :: real

record bar =
  timestamp :: int
  close :: real
  ATR :: real
  Buy_Signal :: bool
  Sell_Signal :: bool

record position =
  shares :: int
  price :: real
  buy_charges :: real
  margin_used :: real
  target_price :: real
  trailing_stop_loss :: real

record trade =
  Time :: int
  Type :: string
  Price :: real
  Shares :: int
  Profit_Loss :: real
  Charges :: real
  Brokerage :: real
  STT :: real
  Transaction_Charge :: real
  SEBI_Charge :: real
  GST :: real
  Stamp_Duty :: real
  Reason :: string

record missed_signal =
  Missed_Time :: int
  Missed_Price :: real
  Missed_Reason :: string

record day_summary =
  Date :: int
  Start_of_Day_Capital :: real
  End_of_Day_Capital :: real

text \<open>
  The parameters of \<open>simulate_trades\<close> that the bar loop reads. \<open>CHARGES\<close> is the
  \<open>charges_config\<close> dictionary: side (\<open>''BUY''\<close>, \<open>''SELL''\<close>) to rate name to percent.
\<close>

record trade_config =
  trade_allocation :: real
  leverage :: real
  target_profit_percentage :: real
  atr_multiplier :: real
  CHARGES :: charges_config

text \<open>
  The local variables of \<open>simulate_trades\<close> that live across bars.
  \<open>start_of_day_capital\<close> is unbound in the source until the first bar assigns it;
  it is only read under \<open>current_day is not None\<close>, so the initial value here is
  never observed.
\<close>

record engine_state =
  capital :: real
  free_cash :: real
  total_profit_loss :: real
  total_revenue :: real
  total_cost :: real
  trades :: "trade list"
  missed_signals :: "missed_signal list"
  daily_summary :: "day_summary list"
  long_positions :: "position list"
  current_day :: "int option"
  start_of_day_capital :: real
  daily_margin_used :: real
  daily_profit_loss :: real

record final_summary =
  Final_Capital :: real
  Total_Profit_Loss :: real
  Total_Revenue :: real
  Total_Cost :: real
  Initial_Capital :: real
  Current_Stock_Holding :: int
  Leverage_Used :: real
  TRADE_ALLOCATION :: real
  TARGET_PROFIT_PERCENTAGE :: real
  ATR_MULTIPLIER :: real

record simulation_result =
  trades_df :: "trade list"
  missed_signals_df :: "missed_signal list"
  daily_summary_df :: "day_summary list"
  summary :: final_summary

section \<open>calculate_transaction_charges\<close>

text \<open>\<open>charges_config[transaction_type][key]\<close>: either lookup may raise KeyError.\<close>

definition rate :: "charges_config \<Rightarrow> string \<Rightarrow> string \<Rightarrow> error + real" where
  "rate cc transaction_type k =
     (case cc transaction_type of
        None \<Rightarrow> Inl KeyError
      | Some rates \<Rightarrow> (case rates k of None \<Rightarrow> Inl KeyError | Some r \<Rightarrow> Inr r))"

text \<open>
  The rates are read in the order of the source lines 12 to 17; \<open>STAMP\<close> is looked up
  only when the side is \<open>''BUY''\<close> (conditional expression of line 17).
\<close>

definition calculate_transaction_charges ::
    "real \<Rightarrow> int \<Rightarrow> string \<Rightarrow> charges_config \<Rightarrow> error + charges_details" where
  "calculate_transaction_charges pr quantity transaction_type cc =
     (let turnover = pr * of_int quantity in
      bind_err (rate cc transaction_type ''BROKERAGE'') (\<lambda>r_brokerage.
      let brokerage_v = min (turnover * (r_brokerage / 100)) 20 in
      bind_err (rate cc transaction_type ''STT'') (\<lambda>r_stt.
      let stt_v = turnover * (r_stt / 100) in
      bind_err (rate cc transaction_type ''TRANSACTION'') (\<lambda>r_transaction.
      let transaction_charge_v = turnover * (r_transaction / 100) in
      bind_err (rate cc transaction_type ''SEBI'') (\<lambda>r_sebi.
      let sebi_charge_v = turnover * (r_sebi / 100) in
      bind_err (rate cc transaction_type ''GST'') (\<lambda>r_gst.
      let gst_v = (brokerage_v + transaction_charge_v + sebi_charge_v) * (r_gst / 100) in
      bind_err (if transaction_type = ''BUY''
                then bind_err (rate cc transaction_type ''STAMP'')
                       (\<lambda>r_stamp. Inr (turnover * (r_stamp / 100)))
                else Inr 0) (\<lambda>stamp_duty_v.
      Inr \<lparr>total_charges = brokerage_v + stt_v + transaction_charge_v + sebi_charge_v
                              + gst_v + stamp_duty_v,
           brokerage = brokerage_v,
           stt = stt_v,
           transaction_charge = transaction_charge_v,
           sebi_charge = sebi_charge_v,
           gst = gst_v,
           stamp_duty = stamp_duty_v\<rparr>)))))))"

section \<open>Time-of-day cut-offs (source lines 71 to 76)\<close>

definition ns_per_day :: int where
  "ns_per_day = 86400000000000"

definition ns_per_minute :: int where
  "ns_per_minute = 60000000000"

text \<open>\<open>timestamp.date()\<close>, as a day number.\<close>

definition trade_day :: "int \<Rightarrow> int" where
  "trade_day ts = ts div ns_per_day"

text \<open>
  \<open>timestamp.replace(hour=15, minute=30, second=0, microsecond=0)\<close>: the date and the
  nanosecond field (\<open>ts mod 1000\<close>) of a pandas Timestamp are kept.
\<close>

definition market_close_time :: "int \<Rightarrow> int" where
  "market_close_time ts = trade_day ts * ns_per_day + (15 * 60 + 30) * ns_per_minute + ts mod 1000"

definition square_off_time :: "int \<Rightarrow> int" where
  "square_off_time ts = market_close_time ts - 30 * ns_per_minute"

definition no_new_buys_time :: "int \<Rightarrow> int" where
  "no_new_buys_time ts = market_close_time ts - 60 * ns_per_minute"

section \<open>The bar loop of simulate_trades\<close>

subsection \<open>Square-off block (source lines 78 to 107)\<close>

definition square_off_position ::
    "charges_config \<Rightarrow> bar \<Rightarrow> engine_state \<Rightarrow> position \<Rightarrow> error + engine_state" where
  "square_off_position cc row s pos =
     (let shares_to_sell = shares pos in
      bind_err (calculate_transaction_charges (close row) shares_to_sell ''SELL'' cc) (\<lambda>d.
      let sell_revenue = of_int shares_to_sell * close row - total_charges d;
          cost = of_int shares_to_sell * price pos + buy_charges pos;
          profit_loss = sell_revenue - cost
      in Inr (s\<lparr>total_profit_loss := total_profit_loss s + profit_loss,
                daily_profit_loss := daily_profit_loss s + profit_loss,
                capital := capital s + profit_loss,
                free_cash := free_cash s + (margin_used pos + sell_revenue),
                long_positions := remove1 pos (long_positions s),
                trades := trades s @
                  [\<lparr>Time = timestamp row, Type = ''Square Off'', Price = close row,
                    Shares = shares_to_sell, Profit_Loss = profit_loss,
                    Charges = total_charges d, Brokerage = brokerage d, STT = stt d,
                    Transaction_Charge = transaction_charge d,
                    SEBI_Charge = sebi_charge d, GST = gst d,
                    Stamp_Duty = stamp_duty d,
                    Reason = ''Square Off Before Market Close''\<rparr>]\<rparr>)))"

text \<open>\<open>for position in list(long_positions)\<close>: the loop runs over a copy of the ledger.\<close>

fun square_off_loop ::
    "charges_config \<Rightarrow> bar \<Rightarrow> engine_state \<Rightarrow> position list \<Rightarrow> error + engine_state" where
  "square_off_loop cc row s [] = Inr s"
| "square_off_loop cc row s (pos # rest) =
     bind_err (square_off_position cc row s pos) (\<lambda>s'. square_off_loop cc row s' rest)"

definition square_off :: "charges_config \<Rightarrow> bar \<Rightarrow> engine_state \<Rightarrow> error + engine_state" where
  "square_off cc row s =
     (if timestamp row \<ge> square_off_time (timestamp row) \<and> long_positions s \<noteq> []
      then square_off_loop cc row s (long_positions s)
      else Inr s)"

subsection \<open>Start of a new day (source lines 109 to 123)\<close>

definition new_day :: "bar \<Rightarrow> engine_state \<Rightarrow> engine_state" where
  "new_day row s =
     (if current_day s \<noteq> Some (trade_day (timestamp row))
      then (let s1 = (case current_day s of
                        None \<Rightarrow> s
                      | Some d \<Rightarrow> s\<lparr>daily_summary := daily_summary s @
                          [\<lparr>Date = d, Start_of_Day_Capital = start_of_day_capital s,
                            End_of_Day_Capital = capital s\<rparr>]\<rparr>)
            in s1\<lparr>current_day := Some (trade_day (timestamp row)),
                  start_of_day_capital := capital s1,
                  free_cash := capital s1,
                  daily_margin_used := 0,
                  daily_profit_loss := 0\<rparr>)
      else s)"

subsection \<open>Buy signal logic (source lines 131 to 171)\<close>

text \<open>
  \<open>int(leveraged_buying_power // price)\<close> is the floor of the quotient; the floor
  division raises ZeroDivisionError when the price is zero.
\<close>

definition buy_logic :: "trade_config \<Rightarrow> bar \<Rightarrow> engine_state \<Rightarrow> error + engine_state" where
  "buy_logic tc row s =
     (if Buy_Signal row then
        (let allocated_margin = free_cash s * trade_allocation tc;
             leveraged_buying_power = allocated_margin * leverage tc
         in if leveraged_buying_power \<ge> close row then
              (if close row = 0 then Inl ZeroDivisionError
               else
                 (let shares_to_buy = \<lfloor>leveraged_buying_power / close row\<rfloor> in
                  if shares_to_buy > 0 then
                    bind_err (calculate_transaction_charges (close row) shares_to_buy ''BUY''
                                (CHARGES tc)) (\<lambda>d.
                    let buy_cost = of_int shares_to_buy * close row + total_charges d in
                    Inr (s\<lparr>total_cost := total_cost s + buy_cost,
                           free_cash := free_cash s - allocated_margin,
                           daily_margin_used := daily_margin_used s + allocated_margin,
                           long_positions := long_positions s @
                             [\<lparr>shares = shares_to_buy, price = close row,
                               buy_charges = total_charges d,
                               margin_used = allocated_margin,
                               target_price =
                                 close row * (1 + target_profit_percentage tc / 100),
                               trailing_stop_loss =
                                 close row - ATR row * atr_multiplier tc\<rparr>],
                           trades := trades s @
                             [\<lparr>Time = timestamp row, Type = ''Buy'', Price = close row,
                               Shares = shares_to_buy, Profit_Loss = 0,
                               Charges = total_charges d, Brokerage = brokerage d,
                               STT = stt d, Transaction_Charge = transaction_charge d,
                               SEBI_Charge = sebi_charge d, GST = gst d,
                               Stamp_Duty = stamp_duty d, Reason = ''Buy Signal''\<rparr>]\<rparr>))
                  else Inr s))
            else Inr (s\<lparr>missed_signals := missed_signals s @
                         [\<lparr>Missed_Time = timestamp row, Missed_Price = close row,
                           Missed_Reason = ''Insufficient Funds''\<rparr>]\<rparr>))
      else Inr s)"

subsection \<open>Sell signal logic (source lines 173 to 214)\<close>

text \<open>The \<open>if\<close>/\<open>elif\<close> chain of lines 176 to 184; \<open>None\<close> is "no reason".\<close>

definition exit_reason :: "bar \<Rightarrow> position \<Rightarrow> string option" where
  "exit_reason row pos =
     (if Sell_Signal row then Some ''Sell Signal Triggered''
      else if close row \<ge> target_price pos then Some ''Target Profit Reached''
      else if close row \<le> trailing_stop_loss pos then Some ''Trailing Stop-Loss Triggered''
      else if timestamp row \<ge> square_off_time (timestamp row)
        then Some ''Square Off Before Market Close''
      else None)"

definition sell_position ::
    "charges_config \<Rightarrow> bar \<Rightarrow> engine_state \<Rightarrow> position \<Rightarrow> error + engine_state" where
  "sell_position cc row s pos =
     (case exit_reason row pos of
        None \<Rightarrow> Inr s
      | Some reason \<Rightarrow>
         (let shares_to_sell = shares pos in
          bind_err (calculate_transaction_charges (close row) shares_to_sell ''SELL'' cc) (\<lambda>d.
          let sell_revenue = of_int shares_to_sell * close row - total_charges d;
              cost = of_int shares_to_sell * price pos + buy_charges pos;
              profit_loss = sell_revenue - cost
          in Inr (s\<lparr>total_profit_loss := total_profit_loss s + profit_loss,
                    daily_profit_loss := daily_profit_loss s + profit_loss,
                    total_revenue := total_revenue s + sell_revenue,
                    capital := capital s + profit_loss,
                    free_cash := free_cash s + (margin_used pos + sell_revenue),
                    trades := trades s @
                      [\<lparr>Time = timestamp row, Type = ''Sell'', Price = close row,
                        Shares = shares_to_sell, Profit_Loss = profit_loss,
                        Charges = total_charges d, Brokerage = brokerage d, STT = stt d,
                        Transaction_Charge = transaction_charge d,
                        SEBI_Charge = sebi_charge d, GST = gst d,
                        Stamp_Duty = stamp_duty d, Reason = reason\<rparr>],
                    long_positions := remove1 pos (long_positions s)\<rparr>))))"

fun sell_loop ::
    "charges_config \<Rightarrow> bar \<Rightarrow> engine_state \<Rightarrow> position list \<Rightarrow> error + engine_state" where
  "sell_loop cc row s [] = Inr s"
| "sell_loop cc row s (pos # rest) =
     bind_err (sell_position cc row s pos) (\<lambda>s'. sell_loop cc row s' rest)"

definition sell_logic :: "charges_config \<Rightarrow> bar \<Rightarrow> engine_state \<Rightarrow> error + engine_state" where
  "sell_logic cc row s =
     (if long_positions s \<noteq> [] then sell_loop cc row s (long_positions s) else Inr s)"

subsection \<open>One iteration of the loop over the rows (source lines 68 to 214)\<close>

text \<open>
  The order is that of the source: square-off, new day, the no-new-buys cut-off (whose
  \<open>continue\<close> ends the iteration), buy logic, sell logic.
\<close>

definition process_bar :: "trade_config \<Rightarrow> bar \<Rightarrow> engine_state \<Rightarrow> error + engine_state" where
  "process_bar tc row s =
     bind_err (square_off (CHARGES tc) row s) (\<lambda>s1.
     let s2 = new_day row s1 in
     if timestamp row \<ge> no_new_buys_time (timestamp row) \<and> Buy_Signal row
     then Inr (s2\<lparr>missed_signals := missed_signals s2 @
                  [\<lparr>Missed_Time = timestamp row, Missed_Price = close row,
                    Missed_Reason = ''Buy restricted near market close''\<rparr>]\<rparr>)
     else bind_err (buy_logic tc row s2) (\<lambda>s3. sell_logic (CHARGES tc) row s3))"

fun run_bars :: "trade_config \<Rightarrow> engine_state \<Rightarrow> bar list \<Rightarrow> error + engine_state" where
  "run_bars tc s [] = Inr s"
| "run_bars tc s (row # rows) = bind_err (process_bar tc row s) (\<lambda>s'. run_bars tc s' rows)"

subsection \<open>simulate_trades\<close>

definition init_state :: "real \<Rightarrow> engine_state" where
  "init_state initial_capital =
     \<lparr>capital = initial_capital, free_cash = initial_capital, total_profit_loss = 0,
      total_revenue = 0, total_cost = 0, trades = [], missed_signals = [],
      daily_summary = [], long_positions = [], current_day = None,
      start_of_day_capital = 0, daily_margin_used = 0, daily_profit_loss = 0\<rparr>"

text \<open>
  The end of \<open>simulate_trades\<close> (source lines 216 to 259). The summary entries that
  only echo \<open>indicator_config\<close> and \<open>historical_data\<close> are left out.
\<close>

definition finish :: "real \<Rightarrow> trade_config \<Rightarrow> engine_state \<Rightarrow> simulation_result" where
  "finish initial_capital tc s =
     (let daily = (case current_day s of
                     None \<Rightarrow> daily_summary s
                   | Some d \<Rightarrow> daily_summary s @
                       [\<lparr>Date = d, Start_of_Day_Capital = start_of_day_capital s,
                         End_of_Day_Capital = capital s\<rparr>]);
          final_capital = initial_capital + total_profit_loss s;
          current_stock_holding = sum_list (map shares (long_positions s))
      in \<lparr>trades_df = trades s,
          missed_signals_df = missed_signals s,
          daily_summary_df = daily,
          summary = \<lparr>Final_Capital = final_capital,
                      Total_Profit_Loss = total_profit_loss s,
                      Total_Revenue = total_revenue s,
                      Total_Cost = total_cost s,
                      Initial_Capital = initial_capital,
                      Current_Stock_Holding = current_stock_holding,
                      Leverage_Used = leverage tc,
                      TRADE_ALLOCATION = trade_allocation tc,
                      TARGET_PROFIT_PERCENTAGE = target_profit_percentage tc,
                      ATR_MULTIPLIER = atr_multiplier tc\<rparr>\<rparr>)"

definition simulate_trades :: "bar list \<Rightarrow> real \<Rightarrow> trade_config \<Rightarrow> error + simulation_result" where
  "simulate_trades data initial_capital tc =
     bind_err (run_bars tc (init_state initial_capital) data)
       (\<lambda>s. Inr (finish initial_capital tc s))"

section \<open>Predicates used in the statements\<close>

text \<open>The rate names a fill of the given side reads from its table.\<close>

definition required_keys :: "string \<Rightarrow> string list" where
  "required_keys side =
     [''BROKERAGE'', ''STT'', ''TRANSACTION'', ''SEBI'', ''GST'']
       @ (if side = ''BUY'' then [''STAMP''] else [])"

definition has_rates :: "charges_config \<Rightarrow> string \<Rightarrow> bool" where
  "has_rates cc side =
     list_all (\<lambda>k. case rate cc side k of Inl _ \<Rightarrow> False | Inr _ \<Rightarrow> True) (required_keys side)"

definition rate_keys :: "string list" where
  "rate_keys = [''BROKERAGE'', ''STT'', ''TRANSACTION'', ''SEBI'', ''GST'', ''STAMP'']"

definition rates_nonneg :: "charges_config \<Rightarrow> string \<Rightarrow> bool" where
  "rates_nonneg cc side =
     list_all (\<lambda>k. case rate cc side k of Inl _ \<Rightarrow> True | Inr r \<Rightarrow> 0 \<le> r) rate_keys"

text \<open>
  The order of steps that the specification describes (section 4.3, steps 1 and 2): day
  rollover first, then the scheduled square-off, then the rest of the iteration. It is
  not the source's order and is only used to say what that order would produce.
\<close>

definition process_bar_rollover_first ::
    "trade_config \<Rightarrow> bar \<Rightarrow> engine_state \<Rightarrow> error + engine_state" where
  "process_bar_rollover_first tc row s =
     (let s1 = new_day row s in
      bind_err (square_off (CHARGES tc) row s1) (\<lambda>s2.
      if timestamp row \<ge> no_new_buys_time (timestamp row) \<and> Buy_Signal row
      then Inr (s2\<lparr>missed_signals := missed_signals s2 @
                   [\<lparr>Missed_Time = timestamp row, Missed_Price = close row,
                     Missed_Reason = ''Buy restricted near market close''\<rparr>]\<rparr>)
      else bind_err (buy_logic tc row s2) (\<lambda>s3. sell_logic (CHARGES tc) row s3)))"

text \<open>
  The square-off deadline of a bar's calendar day as a plain time: 15:00, market close
  (15:30) minus 30 minutes.
\<close>

definition square_off_deadline :: "int \<Rightarrow> int" where
  "square_off_deadline ts = trade_day ts * ns_per_day + (15 * 60) * ns_per_minute"

text \<open>
  The SELL rates are non-negative and the charges they add up to never exceed the
  turnover: brokerage, securities tax, transaction and regulatory charge plus the tax on
  the three fees are at most 100 percent.
\<close>

definition sell_charges_bounded :: "charges_config \<Rightarrow> bool" where
  "sell_charges_bounded cc =
     (rates_nonneg cc ''SELL'' \<and>
      (case rate cc ''SELL'' ''BROKERAGE'' of Inl _ \<Rightarrow> True | Inr b \<Rightarrow>
       case rate cc ''SELL'' ''STT'' of Inl _ \<Rightarrow> True | Inr s \<Rightarrow>
       case rate cc ''SELL'' ''TRANSACTION'' of Inl _ \<Rightarrow> True | Inr t \<Rightarrow>
       case rate cc ''SELL'' ''SEBI'' of Inl _ \<Rightarrow> True | Inr e \<Rightarrow>
       case rate cc ''SELL'' ''GST'' of Inl _ \<Rightarrow> True | Inr g \<Rightarrow>
         b + s + t + e + (b + t + e) * (g / 100) \<le> 100))"

text \<open>Free cash is non-negative and every open position has a non-negative margin and a
  positive share count.\<close>

definition ledger_ok :: "engine_state \<Rightarrow> bool" where
  "ledger_ok s =
     (0 \<le> free_cash s \<and> list_all (\<lambda>p. 0 \<le> margin_used p \<and> 0 < shares p) (long_positions s))"

text \<open>
  The observation points of a run: the state before the first bar and the state after
  each bar, up to the bar that raises (if any).
\<close>

fun run_trace :: "trade_config \<Rightarrow> engine_state \<Rightarrow> bar list \<Rightarrow> engine_state list" where
  "run_trace tc s [] = [s]"
| "run_trace tc s (row # rows) =
     s # (case process_bar tc row s of Inl e \<Rightarrow> [] | Inr s' \<Rightarrow> run_trace tc s' rows)"

section \<open>Concrete inputs\<close>

text \<open>The timestamp of day \<open>d\<close> at \<open>h:m\<close> o'clock.\<close>

definition at_time :: "int \<Rightarrow> int \<Rightarrow> int \<Rightarrow> int" where
  "at_time d h m = d * ns_per_day + (h * 60 + m) * ns_per_minute"

definition zero_rates :: "string \<rightharpoonup> real" where
  "zero_rates = [''BROKERAGE'' \<mapsto> 0, ''STT'' \<mapsto> 0, ''TRANSACTION'' \<mapsto> 0,
                 ''SEBI'' \<mapsto> 0, ''GST'' \<mapsto> 0, ''STAMP'' \<mapsto> 0]"

definition zero_charges :: charges_config where
  "zero_charges = [''BUY'' \<mapsto> zero_rates, ''SELL'' \<mapsto> zero_rates]"

definition sample_rates :: "string \<rightharpoonup> real" where
  "sample_rates = [''BROKERAGE'' \<mapsto> 3 / 100, ''STT'' \<mapsto> 25 / 1000,
                   ''TRANSACTION'' \<mapsto> 3 / 1000, ''SEBI'' \<mapsto> 1 / 10000,
                   ''GST'' \<mapsto> 18, ''STAMP'' \<mapsto> 3 / 1000]"

definition sample_charges :: charges_config where
  "sample_charges = [''BUY'' \<mapsto> sample_rates, ''SELL'' \<mapsto> sample_rates]"

definition tc_plain :: trade_config where
  "tc_plain = \<lparr>trade_allocation = 1, leverage = 1, target_profit_percentage = 10,
                atr_multiplier = 1, CHARGES = zero_charges\<rparr>"

definition tc_lev5 :: trade_config where
  "tc_lev5 = \<lparr>trade_allocation = 1, leverage = 5, target_profit_percentage = 10,
               atr_multiplier = 1, CHARGES = zero_charges\<rparr>"

text \<open>\<open>load_config\<close> replaces a missing \<open>CHARGES\<close> section by the empty dictionary.\<close>

definition tc_no_charges :: trade_config where
  "tc_no_charges = \<lparr>trade_allocation = 1, leverage = 1, target_profit_percentage = 10,
                     atr_multiplier = 1, CHARGES = Map.empty\<rparr>"

definition buy_0920 :: bar where
  "buy_0920 = \<lparr>timestamp = at_time 1 9 20, close = 100, ATR = 5,
                Buy_Signal = True, Sell_Signal = False\<rparr>"

definition fall_0925 :: bar where
  "fall_0925 = \<lparr>timestamp = at_time 1 9 25, close = 50, ATR = 5,
                 Buy_Signal = False, Sell_Signal = False\<rparr>"

definition rise_1000 :: bar where
  "rise_1000 = \<lparr>timestamp = at_time 1 10 0, close = 112, ATR = 5,
                 Buy_Signal = False, Sell_Signal = False\<rparr>"

definition buy_1400 :: bar where
  "buy_1400 = \<lparr>timestamp = at_time 1 14 0, close = 100, ATR = 5,
                Buy_Signal = True, Sell_Signal = False\<rparr>"

definition late_buy_1440 :: bar where
  "late_buy_1440 = \<lparr>timestamp = at_time 1 14 40, close = 120, ATR = 5,
                  Buy_Signal = True, Sell_Signal = False\<rparr>"

definition hold_1440 :: bar where
  "hold_1440 = \<lparr>timestamp = at_time 1 14 40, close = 120, ATR = 5,
                    Buy_Signal = False, Sell_Signal = False\<rparr>"

definition late_1500 :: bar where
  "late_1500 = \<lparr>timestamp = at_time 1 15 0, close = 105, ATR = 5,
                 Buy_Signal = True, Sell_Signal = True\<rparr>"

definition quiet_next_day :: bar where
  "quiet_next_day = \<lparr>timestamp = at_time 2 9 20, close = 50, ATR = 5,
                      Buy_Signal = False, Sell_Signal = False\<rparr>"

definition next_day_1500 :: bar where
  "next_day_1500 = \<lparr>timestamp = at_time 2 15 0, close = 105, ATR = 5,
                     Buy_Signal = False, Sell_Signal = False\<rparr>"

definition next_day_0915 :: bar where
  "next_day_0915 = \<lparr>timestamp = at_time 2 9 15, close = 112, ATR = 5,
                     Buy_Signal = False, Sell_Signal = False\<rparr>"

definition poor_bar :: bar where
  "poor_bar = \<lparr>timestamp = at_time 1 9 20, close = 1000, ATR = 5,
                Buy_Signal = True, Sell_Signal = False\<rparr>"

definition quiet_0915 :: bar where
  "quiet_0915 = \<lparr>timestamp = at_time 1 9 15, close = 100, ATR = 5,
                  Buy_Signal = False, Sell_Signal = False\<rparr>"

definition tc_sample :: trade_config where
  "tc_sample = \<lparr>trade_allocation = 1 / 2, leverage = 2, target_profit_percentage = 10,
                 atr_multiplier = 1, CHARGES = sample_charges\<rparr>"

definition pos_a :: position where
  "pos_a = \<lparr>shares = 1, price = 100, buy_charges = 0, margin_used = 100,
             target_price = 110, trailing_stop_loss = 95\<rparr>"

definition pos_b :: position where
  "pos_b = \<lparr>shares = 2, price = 100, buy_charges = 0, margin_used = 200,
             target_price = 130, trailing_stop_loss = 90\<rparr>"

text \<open>A state in the middle of day 1 with two open positions.\<close>

definition holding :: engine_state where
  "holding = \<lparr>capital = 400, free_cash = 100, total_profit_loss = 0,
      total_revenue = 0, total_cost = 300, trades = [], missed_signals = [],
      daily_summary = [], long_positions = [pos_a, pos_b], current_day = Some 1,
      start_of_day_capital = 400, daily_margin_used = 300, daily_profit_loss = 0\<rparr>"

section \<open>The capital accumulators in double arithmetic\<close>

text \<open>
  Python floats are IEEE 754 binary64 numbers. \<open>round_double\<close> rounds a real to the nearest
  double, ties to the even significand (53-bit significand, smallest exponent -1074;
  overflow to infinity is not modelled), and \<open>dadd\<close> is the addition of two doubles.
\<close>

definition round_half_even :: "real \<Rightarrow> int" where
  "round_half_even m =
     (let f = \<lfloor>m\<rfloor>; r = m - of_int f
      in if r < 1 / 2 then f else if 1 / 2 < r then f + 1 else if even f then f else f + 1)"

definition round_double :: "real \<Rightarrow> real" where
  "round_double x =
     (if x = 0 then 0
      else (let e = max (\<lfloor>log 2 \<bar>x\<bar>\<rfloor> - 52) (- 1074)
            in of_int (round_half_even (x / 2 powr of_int e)) * 2 powr of_int e))"

definition dadd :: "real \<Rightarrow> real \<Rightarrow> real" where
  "dadd x y = round_double (x + y)"

text \<open>
  \<open>capital\<close> starts at \<open>initial_capital\<close> (source line 50) and \<open>total_profit_loss\<close> at 0
  (line 52). Every exit adds its \<open>profit_loss\<close> to both, in the square-off block
  (lines 87 and 89) and in the sell logic (lines 193 and 196); nothing else writes them.
  \<open>final_capital\<close> is \<open>initial_capital + total_profit_loss\<close> (line 225). In the
  definitions below \<open>pls\<close> is the list of the \<open>profit_loss\<close> values of the exits, in
  the order in which they happen.
\<close>

definition capital_acc :: "real \<Rightarrow> real list \<Rightarrow> real" where
  "capital_acc initial_capital pls = foldl dadd initial_capital pls"

definition total_profit_loss_acc :: "real list \<Rightarrow> real" where
  "total_profit_loss_acc pls = foldl dadd 0 pls"

definition final_capital_acc :: "real \<Rightarrow> real list \<Rightarrow> real" where
  "final_capital_acc initial_capital pls = dadd initial_capital (total_profit_loss_acc pls)"

text \<open>
  No addition of an accumulator that starts at \<open>a\<close> rounds: the exact sum of the running
  value and the next profit is its own rounding.
\<close>

fun sums_exact :: "real \<Rightarrow> real list \<Rightarrow> bool" where
  "sums_exact a [] = True"
| "sums_exact a (p # ps) = (dadd a p = a + p \<and> sums_exact (a + p) ps)"

text \<open>The \<open>Profit/Loss\<close> entries of the exits (Sell and Square Off) of a trade log.\<close>

definition exit_profits :: "trade list \<Rightarrow> real list" where
  "exit_profits ts = map Profit_Loss (filter (\<lambda>t. Type t \<noteq> ''Buy'') ts)"

text \<open>
  A run on whole amounts at the edge of the 53-bit significand: capital
  \<open>2^53 = 9007199254740992\<close> and allocation \<open>2^-53\<close>, so that one share is bought at 1.
\<close>

definition tc_tiny :: trade_config where
  "tc_tiny = \<lparr>trade_allocation = 1 / 9007199254740992, leverage = 1,
               target_profit_percentage = 100, atr_multiplier = 1, CHARGES = zero_charges\<rparr>"

definition tiny_bars :: "bar list" where
  "tiny_bars =
     [\<lparr>timestamp = at_time 1 9 20, close = 1, ATR = 1 / 2, Buy_Signal = True, Sell_Signal = False\<rparr>,
      \<lparr>timestamp = at_time 1 9 25, close = 2, ATR = 1 / 2, Buy_Signal = False, Sell_Signal = False\<rparr>,
      \<lparr>timestamp = at_time 1 9 30, close = 1, ATR = 1 / 2, Buy_Signal = True, Sell_Signal = False\<rparr>,
      \<lparr>timestamp = at_time 1 9 35, close = 2, ATR = 1 / 2, Buy_Signal = False, Sell_Signal = False\<rparr>]"

section \<open>The bar loop over IEEE special values\<close>

text \<open>
  A Python float is a finite number, an infinity or NaN. The definitions of this section
  repeat the loop of \<open>simulate_trades\<close> over \<open>py_float\<close>, with the suffix \<open>_x\<close>. Finite
  values are reals and their arithmetic is exact (no rounding and no overflow); the
  special values follow IEEE 754 and CPython: NaN is absorbing and compares false with
  everything, \<open>inf - inf\<close> and \<open>0 * inf\<close> are NaN, \<open>min (a, b)\<close> is \<open>b\<close> only if \<open>b < a\<close>.
  The configuration (rates, allocation, leverage) stays finite.
\<close>

datatype py_float = Fin real | PInf | NInf | NaN

fun fneg :: "py_float \<Rightarrow> py_float" where
  "fneg (Fin a) = Fin (- a)"
| "fneg PInf = NInf"
| "fneg NInf = PInf"
| "fneg NaN = NaN"

fun fadd :: "py_float \<Rightarrow> py_float \<Rightarrow> py_float" where
  "fadd NaN y = NaN"
| "fadd x NaN = NaN"
| "fadd PInf NInf = NaN"
| "fadd NInf PInf = NaN"
| "fadd PInf y = PInf"
| "fadd x PInf = PInf"
| "fadd NInf y = NInf"
| "fadd x NInf = NInf"
| "fadd (Fin a) (Fin b) = Fin (a + b)"

definition fsub :: "py_float \<Rightarrow> py_float \<Rightarrow> py_float" where
  "fsub x y = fadd x (fneg y)"

fun fsign :: "py_float \<Rightarrow> int" where
  "fsign (Fin a) = (if a < 0 then - 1 else if a = 0 then 0 else 1)"
| "fsign PInf = 1"
| "fsign NInf = - 1"
| "fsign NaN = 0"

fun fmul :: "py_float \<Rightarrow> py_float \<Rightarrow> py_float" where
  "fmul NaN y = NaN"
| "fmul x NaN = NaN"
| "fmul (Fin a) (Fin b) = Fin (a * b)"
| "fmul x y = (if fsign x * fsign y = 0 then NaN
               else if 0 < fsign x * fsign y then PInf else NInf)"

fun fle :: "py_float \<Rightarrow> py_float \<Rightarrow> bool" where
  "fle NaN y = False"
| "fle x NaN = False"
| "fle NInf y = True"
| "fle x PInf = True"
| "fle PInf y = False"
| "fle x NInf = False"
| "fle (Fin a) (Fin b) = (a \<le> b)"

definition fge :: "py_float \<Rightarrow> py_float \<Rightarrow> bool" where
  "fge x y = fle y x"

definition flt :: "py_float \<Rightarrow> py_float \<Rightarrow> bool" where
  "flt x y = (fle x y \<and> x \<noteq> y)"

definition py_min :: "py_float \<Rightarrow> py_float \<Rightarrow> py_float" where
  "py_min x y = (if flt y x then y else x)"

text \<open>
  \<open>int (x // y)\<close>, source line 137. Float floor division raises ZeroDivisionError for
  a zero divisor whatever the dividend is; the quotient of an infinite or NaN dividend,
  and of anything by NaN, is NaN, and \<open>int\<close> of NaN raises ValueError; a finite dividend
  divided by an infinity gives 0, or -1 when the signs differ.
\<close>

fun int_floordiv :: "py_float \<Rightarrow> py_float \<Rightarrow> error + int" where
  "int_floordiv x (Fin b) =
     (if b = 0 then Inl ZeroDivisionError
      else (case x of Fin a \<Rightarrow> Inr \<lfloor>a / b\<rfloor> | _ \<Rightarrow> Inl ValueError))"
| "int_floordiv (Fin a) PInf = Inr (if a < 0 then - 1 else 0)"
| "int_floordiv (Fin a) NInf = Inr (if 0 < a then - 1 else 0)"
| "int_floordiv x y = Inl ValueError"

record bar_x =
  timestamp_x :: int
  close_x :: py_float
  ATR_x :: py_float
  Buy_Signal_x :: bool
  Sell_Signal_x :: bool

record charges_details_x =
  total_charges_x :: py_float
  brokerage_x :: py_float
  stt_x :: py_float
  transaction_charge_x :: py_float
  sebi_charge_x :: py_float
  gst_x :: py_float
  stamp_duty_x :: py_float

record position_x =
  shares_x :: int
  price_x :: py_float
  buy_charges_x :: py_float
  margin_used_x :: py_float
  target_price_x :: py_float
  trailing_stop_loss_x :: py_float

record trade_x =
  Time_x :: int
  Type_x :: string
  Price_x :: py_float
  Shares_x :: int
  Profit_Loss_x :: py_float
  Charges_x :: py_float
  Brokerage_x :: py_float
  STT_x :: py_float
  Transaction_Charge_x :: py_float
  SEBI_Charge_x :: py_float
  GST_x :: py_float
  Stamp_Duty_x :: py_float
  Reason_x :: string

record missed_signal_x =
  Missed_Time_x :: int
  Missed_Price_x :: py_float
  Missed_Reason_x :: string

record day_summary_x =
  Date_x :: int
  Start_of_Day_Capital_x :: py_float
  End_of_Day_Capital_x :: py_float

record engine_state_x =
  capital_x :: py_float
  free_cash_x :: py_float
  total_profit_loss_x :: py_float
  total_revenue_x :: py_float
  total_cost_x :: py_float
  trades_x :: "trade_x list"
  missed_signals_x :: "missed_signal_x list"
  daily_summary_x :: "day_summary_x list"
  long_positions_x :: "position_x list"
  current_day_x :: "int option"
  start_of_day_capital_x :: py_float
  daily_margin_used_x :: py_float
  daily_profit_loss_x :: py_float

text \<open>\<open>calculate_transaction_charges\<close> (source lines 7 to 27).\<close>

definition calculate_transaction_charges_x ::
    "py_float \<Rightarrow> int \<Rightarrow> string \<Rightarrow> charges_config \<Rightarrow> error + charges_details_x" where
  "calculate_transaction_charges_x pr quantity transaction_type cc =
     (let turnover = fmul pr (Fin (of_int quantity)) in
      bind_err (rate cc transaction_type ''BROKERAGE'') (\<lambda>r_brokerage.
      let brokerage_v = py_min (fmul turnover (Fin (r_brokerage / 100))) (Fin 20) in
      bind_err (rate cc transaction_type ''STT'') (\<lambda>r_stt.
      let stt_v = fmul turnover (Fin (r_stt / 100)) in
      bind_err (rate cc transaction_type ''TRANSACTION'') (\<lambda>r_transaction.
      let transaction_charge_v = fmul turnover (Fin (r_transaction / 100)) in
      bind_err (rate cc transaction_type ''SEBI'') (\<lambda>r_sebi.
      let sebi_charge_v = fmul turnover (Fin (r_sebi / 100)) in
      bind_err (rate cc transaction_type ''GST'') (\<lambda>r_gst.
      let gst_v = fmul (fadd (fadd brokerage_v transaction_charge_v) sebi_charge_v)
                    (Fin (r_gst / 100)) in
      bind_err (if transaction_type = ''BUY''
                then bind_err (rate cc transaction_type ''STAMP'')
                       (\<lambda>r_stamp. Inr (fmul turnover (Fin (r_stamp / 100))))
                else Inr (Fin 0)) (\<lambda>stamp_duty_v.
      Inr \<lparr>total_charges_x =
             fadd (fadd (fadd (fadd (fadd brokerage_v stt_v) transaction_charge_v)
                     sebi_charge_v) gst_v) stamp_duty_v,
           brokerage_x = brokerage_v,
           stt_x = stt_v,
           transaction_charge_x = transaction_charge_v,
           sebi_charge_x = sebi_charge_v,
           gst_x = gst_v,
           stamp_duty_x = stamp_duty_v\<rparr>)))))))"

text \<open>The square-off block (source lines 78 to 107).\<close>

definition square_off_position_x ::
    "charges_config \<Rightarrow> bar_x \<Rightarrow> engine_state_x \<Rightarrow> position_x \<Rightarrow> error + engine_state_x" where
  "square_off_position_x cc row s pos =
     (let shares_to_sell = shares_x pos in
      bind_err (calculate_transaction_charges_x (close_x row) shares_to_sell ''SELL'' cc) (\<lambda>d.
      let sell_revenue = fsub (fmul (Fin (of_int shares_to_sell)) (close_x row))
                           (total_charges_x d);
          cost = fadd (fmul (Fin (of_int shares_to_sell)) (price_x pos)) (buy_charges_x pos);
          profit_loss = fsub sell_revenue cost
      in Inr (s\<lparr>total_profit_loss_x := fadd (total_profit_loss_x s) profit_loss,
                daily_profit_loss_x := fadd (daily_profit_loss_x s) profit_loss,
                capital_x := fadd (capital_x s) profit_loss,
                free_cash_x := fadd (free_cash_x s) (fadd (margin_used_x pos) sell_revenue),
                long_positions_x := remove1 pos (long_positions_x s),
                trades_x := trades_x s @
                  [\<lparr>Time_x = timestamp_x row, Type_x = ''Square Off'', Price_x = close_x row,
                    Shares_x = shares_to_sell, Profit_Loss_x = profit_loss,
                    Charges_x = total_charges_x d, Brokerage_x = brokerage_x d,
                    STT_x = stt_x d, Transaction_Charge_x = transaction_charge_x d,
                    SEBI_Charge_x = sebi_charge_x d, GST_x = gst_x d,
                    Stamp_Duty_x = stamp_duty_x d,
                    Reason_x = ''Square Off Before Market Close''\<rparr>]\<rparr>)))"

fun square_off_loop_x ::
    "charges_config \<Rightarrow> bar_x \<Rightarrow> engine_state_x \<Rightarrow> position_x list \<Rightarrow> error + engine_state_x" where
  "square_off_loop_x cc row s [] = Inr s"
| "square_off_loop_x cc row s (pos # rest) =
     bind_err (square_off_position_x cc row s pos) (\<lambda>s'. square_off_loop_x cc row s' rest)"

definition square_off_x ::
    "charges_config \<Rightarrow> bar_x \<Rightarrow> engine_state_x \<Rightarrow> error + engine_state_x" where
  "square_off_x cc row s =
     (if timestamp_x row \<ge> square_off_time (timestamp_x row) \<and> long_positions_x s \<noteq> []
      then square_off_loop_x cc row s (long_positions_x s)
      else Inr s)"

text \<open>Start of a new day (source lines 109 to 123).\<close>

definition new_day_x :: "bar_x \<Rightarrow> engine_state_x \<Rightarrow> engine_state_x" where
  "new_day_x row s =
     (if current_day_x s \<noteq> Some (trade_day (timestamp_x row))
      then (let s1 = (case current_day_x s of
                        None \<Rightarrow> s
                      | Some d \<Rightarrow> s\<lparr>daily_summary_x := daily_summary_x s @
                          [\<lparr>Date_x = d, Start_of_Day_Capital_x = start_of_day_capital_x s,
                            End_of_Day_Capital_x = capital_x s\<rparr>]\<rparr>)
            in s1\<lparr>current_day_x := Some (trade_day (timestamp_x row)),
                  start_of_day_capital_x := capital_x s1,
                  free_cash_x := capital_x s1,
                  daily_margin_used_x := Fin 0,
                  daily_profit_loss_x := Fin 0\<rparr>)
      else s)"

text \<open>Buy signal logic (source lines 131 to 171).\<close>

definition buy_logic_x ::
    "trade_config \<Rightarrow> bar_x \<Rightarrow> engine_state_x \<Rightarrow> error + engine_state_x" where
  "buy_logic_x tc row s =
     (if Buy_Signal_x row then
        (let allocated_margin = fmul (free_cash_x s) (Fin (trade_allocation tc));
             leveraged_buying_power = fmul allocated_margin (Fin (leverage tc))
         in if fge leveraged_buying_power (close_x row) then
              bind_err (int_floordiv leveraged_buying_power (close_x row)) (\<lambda>shares_to_buy.
              if shares_to_buy > 0 then
                bind_err (calculate_transaction_charges_x (close_x row) shares_to_buy ''BUY''
                            (CHARGES tc)) (\<lambda>d.
                let buy_cost = fadd (fmul (Fin (of_int shares_to_buy)) (close_x row))
                                 (total_charges_x d) in
                Inr (s\<lparr>total_cost_x := fadd (total_cost_x s) buy_cost,
                       free_cash_x := fsub (free_cash_x s) allocated_margin,
                       daily_margin_used_x := fadd (daily_margin_used_x s) allocated_margin,
                       long_positions_x := long_positions_x s @
                         [\<lparr>shares_x = shares_to_buy, price_x = close_x row,
                           buy_charges_x = total_charges_x d,
                           margin_used_x = allocated_margin,
                           target_price_x =
                             fmul (close_x row) (Fin (1 + target_profit_percentage tc / 100)),
                           trailing_stop_loss_x =
                             fsub (close_x row) (fmul (ATR_x row) (Fin (atr_multiplier tc)))\<rparr>],
                       trades_x := trades_x s @
                         [\<lparr>Time_x = timestamp_x row, Type_x = ''Buy'', Price_x = close_x row,
                           Shares_x = shares_to_buy, Profit_Loss_x = Fin 0,
                           Charges_x = total_charges_x d, Brokerage_x = brokerage_x d,
                           STT_x = stt_x d, Transaction_Charge_x = transaction_charge_x d,
                           SEBI_Charge_x = sebi_charge_x d, GST_x = gst_x d,
                           Stamp_Duty_x = stamp_duty_x d, Reason_x = ''Buy Signal''\<rparr>]\<rparr>))
              else Inr s)
            else Inr (s\<lparr>missed_signals_x := missed_signals_x s @
                         [\<lparr>Missed_Time_x = timestamp_x row, Missed_Price_x = close_x row,
                           Missed_Reason_x = ''Insufficient Funds''\<rparr>]\<rparr>))
      else Inr s)"

text \<open>Sell signal logic (source lines 173 to 214).\<close>

definition exit_reason_x :: "bar_x \<Rightarrow> position_x \<Rightarrow> string option" where
  "exit_reason_x row pos =
     (if Sell_Signal_x row then Some ''Sell Signal Triggered''
      else if fge (close_x row) (target_price_x pos) then Some ''Target Profit Reached''
      else if fle (close_x row) (trailing_stop_loss_x pos)
        then Some ''Trailing Stop-Loss Triggered''
      else if timestamp_x row \<ge> square_off_time (timestamp_x row)
        then Some ''Square Off Before Market Close''
      else None)"

definition sell_position_x ::
    "charges_config \<Rightarrow> bar_x \<Rightarrow> engine_state_x \<Rightarrow> position_x \<Rightarrow> error + engine_state_x" where
  "sell_position_x cc row s pos =
     (case exit_reason_x row pos of
        None \<Rightarrow> Inr s
      | Some reason \<Rightarrow>
         (let shares_to_sell = shares_x pos in
          bind_err (calculate_transaction_charges_x (close_x row) shares_to_sell ''SELL'' cc)
            (\<lambda>d.
          let sell_revenue = fsub (fmul (Fin (of_int shares_to_sell)) (close_x row))
                               (total_charges_x d);
              cost = fadd (fmul (Fin (of_int shares_to_sell)) (price_x pos)) (buy_charges_x pos);
              profit_loss = fsub sell_revenue cost
          in Inr (s\<lparr>total_profit_loss_x := fadd (total_profit_loss_x s) profit_loss,
                    daily_profit_loss_x := fadd (daily_profit_loss_x s) profit_loss,
                    total_revenue_x := fadd (total_revenue_x s) sell_revenue,
                    capital_x := fadd (capital_x s) profit_loss,
                    free_cash_x := fadd (free_cash_x s) (fadd (margin_used_x pos) sell_revenue),
                    trades_x := trades_x s @
                      [\<lparr>Time_x = timestamp_x row, Type_x = ''Sell'', Price_x = close_x row,
                        Shares_x = shares_to_sell, Profit_Loss_x = profit_loss,
                        Charges_x = total_charges_x d, Brokerage_x = brokerage_x d,
                        STT_x = stt_x d, Transaction_Charge_x = transaction_charge_x d,
                        SEBI_Charge_x = sebi_charge_x d, GST_x = gst_x d,
                        Stamp_Duty_x = stamp_duty_x d, Reason_x = reason\<rparr>],
                    long_positions_x := remove1 pos (long_positions_x s)\<rparr>))))"

fun sell_loop_x ::
    "charges_config \<Rightarrow> bar_x \<Rightarrow> engine_state_x \<Rightarrow> position_x list \<Rightarrow> error + engine_state_x" where
  "sell_loop_x cc row s [] = Inr s"
| "sell_loop_x cc row s (pos # rest) =
     bind_err (sell_position_x cc row s pos) (\<lambda>s'. sell_loop_x cc row s' rest)"

definition sell_logic_x ::
    "charges_config \<Rightarrow> bar_x \<Rightarrow> engine_state_x \<Rightarrow> error + engine_state_x" where
  "sell_logic_x cc row s =
     (if long_positions_x s \<noteq> [] then sell_loop_x cc row s (long_positions_x s) else Inr s)"

text \<open>
  One iteration (source lines 68 to 214), with the \<open>continue\<close> of line 129 as the first
  branch.
\<close>

definition process_bar_x ::
    "trade_config \<Rightarrow> bar_x \<Rightarrow> engine_state_x \<Rightarrow> error + engine_state_x" where
  "process_bar_x tc row s =
     bind_err (square_off_x (CHARGES tc) row s) (\<lambda>s1.
     let s2 = new_day_x row s1 in
     if timestamp_x row \<ge> no_new_buys_time (timestamp_x row) \<and> Buy_Signal_x row
     then Inr (s2\<lparr>missed_signals_x := missed_signals_x s2 @
                  [\<lparr>Missed_Time_x = timestamp_x row, Missed_Price_x = close_x row,
                    Missed_Reason_x = ''Buy restricted near market close''\<rparr>]\<rparr>)
     else bind_err (buy_logic_x tc row s2) (\<lambda>s3. sell_logic_x (CHARGES tc) row s3))"

fun run_bars_x ::
    "trade_config \<Rightarrow> engine_state_x \<Rightarrow> bar_x list \<Rightarrow> error + engine_state_x" where
  "run_bars_x tc s [] = Inr s"
| "run_bars_x tc s (row # rows) =
     bind_err (process_bar_x tc row s) (\<lambda>s'. run_bars_x tc s' rows)"

definition init_state_x :: "real \<Rightarrow> engine_state_x" where
  "init_state_x initial_capital =
     \<lparr>capital_x = Fin initial_capital, free_cash_x = Fin initial_capital,
      total_profit_loss_x = Fin 0, total_revenue_x = Fin 0, total_cost_x = Fin 0,
      trades_x = [], missed_signals_x = [], daily_summary_x = [], long_positions_x = [],
      current_day_x = None, start_of_day_capital_x = Fin 0, daily_margin_used_x = Fin 0,
      daily_profit_loss_x = Fin 0\<rparr>"


text \<open>Bars and a position with special or non-positive values.\<close>

definition buy_0920_x :: bar_x where
  "buy_0920_x = \<lparr>timestamp_x = at_time 1 9 20, close_x = Fin 100, ATR_x = Fin 5,
                  Buy_Signal_x = True, Sell_Signal_x = False\<rparr>"

definition neg_atr_bar_x :: bar_x where
  "neg_atr_bar_x = \<lparr>timestamp_x = at_time 1 9 20, close_x = Fin 100, ATR_x = Fin (- 2),
                     Buy_Signal_x = True, Sell_Signal_x = False\<rparr>"

definition nan_atr_bar_x :: bar_x where
  "nan_atr_bar_x = \<lparr>timestamp_x = at_time 1 9 20, close_x = Fin 100, ATR_x = NaN,
                     Buy_Signal_x = True, Sell_Signal_x = False\<rparr>"

definition nan_close_bar_x :: bar_x where
  "nan_close_bar_x = \<lparr>timestamp_x = at_time 1 9 20, close_x = NaN, ATR_x = Fin 5,
                       Buy_Signal_x = True, Sell_Signal_x = False\<rparr>"

definition zero_close_bar_x :: bar_x where
  "zero_close_bar_x = \<lparr>timestamp_x = at_time 1 9 20, close_x = Fin 0, ATR_x = Fin 5,
                        Buy_Signal_x = True, Sell_Signal_x = False\<rparr>"

definition neg_inf_close_bar_x :: bar_x where
  "neg_inf_close_bar_x = \<lparr>timestamp_x = at_time 1 9 20, close_x = NInf, ATR_x = Fin 5,
                           Buy_Signal_x = True, Sell_Signal_x = False\<rparr>"

definition late_zero_close_x :: bar_x where
  "late_zero_close_x = \<lparr>timestamp_x = at_time 1 14 40, close_x = Fin 0, ATR_x = NaN,
                         Buy_Signal_x = True, Sell_Signal_x = False\<rparr>"

definition sell_neg_close_x :: bar_x where
  "sell_neg_close_x = \<lparr>timestamp_x = at_time 1 9 25, close_x = Fin (- 5), ATR_x = Fin 5,
                        Buy_Signal_x = False, Sell_Signal_x = True\<rparr>"

definition sell_nan_close_x :: bar_x where
  "sell_nan_close_x = \<lparr>timestamp_x = at_time 1 9 25, close_x = NaN, ATR_x = Fin 5,
                        Buy_Signal_x = False, Sell_Signal_x = True\<rparr>"

definition quiet_nan_close_x :: bar_x where
  "quiet_nan_close_x = \<lparr>timestamp_x = at_time 1 9 25, close_x = NaN, ATR_x = Fin 5,
                         Buy_Signal_x = False, Sell_Signal_x = False\<rparr>"

definition pos_x :: position_x where
  "pos_x = \<lparr>shares_x = 1, price_x = Fin 100, buy_charges_x = Fin 0, margin_used_x = Fin 100,
             target_price_x = Fin 110, trailing_stop_loss_x = Fin 95\<rparr>"

section \<open>Properties of calculate_transaction_charges\<close>

lemma bind_err_simps [simp]:
  "bind_err (Inl e) f = Inl e"
  "bind_err (Inr x) f = f x"
  by (simp_all add: bind_err_def)

lemma bind_err_Inr_iff: "bind_err m f = Inr y \<longleftrightarrow> (\<exists>x. m = Inr x \<and> f x = Inr y)"
  by (cases m) simp_all

lemma rate_Inr_iff:
  "rate cc side k = Inr r \<longleftrightarrow> (\<exists>rates. cc side = Some rates \<and> rates k = Some r)"
  by (auto simp: rate_def split: option.splits)

lemma calc_Inr_D:
  assumes "calculate_transaction_charges p q side cc = Inr c"
  shows "\<exists>rates b s t e g.
    cc side = Some rates \<and> rates ''BROKERAGE'' = Some b \<and> rates ''STT'' = Some s \<and>
    rates ''TRANSACTION'' = Some t \<and> rates ''SEBI'' = Some e \<and> rates ''GST'' = Some g \<and>
    brokerage c = min (p * of_int q * (b / 100)) 20 \<and>
    stt c = p * of_int q * (s / 100) \<and>
    transaction_charge c = p * of_int q * (t / 100) \<and>
    sebi_charge c = p * of_int q * (e / 100) \<and>
    gst c = (brokerage c + transaction_charge c + sebi_charge c) * (g / 100) \<and>
    (side = ''BUY'' \<longrightarrow>
       (\<exists>d. rates ''STAMP'' = Some d \<and> stamp_duty c = p * of_int q * (d / 100))) \<and>
    (side \<noteq> ''BUY'' \<longrightarrow> stamp_duty c = 0) \<and>
    total_charges c = brokerage c + stt c + transaction_charge c + sebi_charge c
                            + gst c + stamp_duty c"
  using assms
  by (auto simp: calculate_transaction_charges_def Let_def bind_err_Inr_iff rate_Inr_iff
           split: if_splits)

lemma rates_nonnegD:
  "rates_nonneg cc side \<Longrightarrow> cc side = Some rates \<Longrightarrow> rates k = Some r
     \<Longrightarrow> k \<in> set rate_keys \<Longrightarrow> 0 \<le> r"
  by (auto simp: rates_nonneg_def rate_def list_all_iff)

text \<open>
  C5. With every rate of the side present in the table, the charges of a fill are:
  turnover = price times quantity; brokerage = min (turnover times brokerage rate, 20);
  securities tax, transaction charge and regulatory charge = turnover times their rate;
  tax on fees = (brokerage + transaction charge + regulatory charge) times the tax rate;
  stamp duty = turnover times the stamp rate for a BUY and 0 otherwise; the total is the
  sum of the six components. A rate is the configured percentage divided by 100.
  The statement needs neither a positive price nor a positive quantity.
\<close>

theorem charges_breakdown:
  assumes "cc side = Some rates"
    and "rates ''BROKERAGE'' = Some b" and "rates ''STT'' = Some s"
    and "rates ''TRANSACTION'' = Some t" and "rates ''SEBI'' = Some e"
    and "rates ''GST'' = Some g" and "rates ''STAMP'' = Some d"
  shows "\<exists>c. calculate_transaction_charges p q side cc = Inr c
     \<and> brokerage c = min (p * of_int q * (b / 100)) 20
     \<and> stt c = p * of_int q * (s / 100)
     \<and> transaction_charge c = p * of_int q * (t / 100)
     \<and> sebi_charge c = p * of_int q * (e / 100)
     \<and> gst c = (brokerage c + transaction_charge c + sebi_charge c) * (g / 100)
     \<and> stamp_duty c = (if side = ''BUY'' then p * of_int q * (d / 100) else 0)
     \<and> total_charges c = brokerage c + stt c + transaction_charge c + sebi_charge c
                            + gst c + stamp_duty c"
proof -
  have r: "rate cc side ''BROKERAGE'' = Inr b" "rate cc side ''STT'' = Inr s"
    "rate cc side ''TRANSACTION'' = Inr t" "rate cc side ''SEBI'' = Inr e"
    "rate cc side ''GST'' = Inr g" "rate cc side ''STAMP'' = Inr d"
    using assms by (simp_all add: rate_def)
  show ?thesis
  proof (cases "side = ''BUY''")
    case True
    with r show ?thesis by (simp add: calculate_transaction_charges_def Let_def)
  next
    case False
    with r show ?thesis by (simp add: calculate_transaction_charges_def Let_def)
  qed
qed

theorem charges_breakdown_witness:
  "sample_charges ''BUY'' = Some sample_rates
   \<and> sample_rates ''BROKERAGE'' = Some (3 / 100) \<and> sample_rates ''STT'' = Some (25 / 1000)
   \<and> sample_rates ''TRANSACTION'' = Some (3 / 1000) \<and> sample_rates ''SEBI'' = Some (1 / 10000)
   \<and> sample_rates ''GST'' = Some 18 \<and> sample_rates ''STAMP'' = Some (3 / 1000)
   \<and> (\<exists>c. calculate_transaction_charges 250 400 ''BUY'' sample_charges = Inr c
         \<and> brokerage c = 20 \<and> stt c = 25 \<and> transaction_charge c = 3
         \<and> sebi_charge c = 1 / 10 \<and> gst c = 4158 / 1000 \<and> stamp_duty c = 3
         \<and> total_charges c = 55258 / 1000)"
proof -
  have h: "sample_charges ''BUY'' = Some sample_rates"
    "sample_rates ''BROKERAGE'' = Some (3 / 100)" "sample_rates ''STT'' = Some (25 / 1000)"
    "sample_rates ''TRANSACTION'' = Some (3 / 1000)" "sample_rates ''SEBI'' = Some (1 / 10000)"
    "sample_rates ''GST'' = Some 18" "sample_rates ''STAMP'' = Some (3 / 1000)"
    by (simp_all add: sample_charges_def sample_rates_def)
  from charges_breakdown [where cc = sample_charges and side = "''BUY''"
      and rates = sample_rates and p = 250 and q = 400, OF h]
  obtain c where
    c: "calculate_transaction_charges 250 400 ''BUY'' sample_charges = Inr c"
      "brokerage c = min (250 * of_int 400 * ((3 / 100) / 100)) 20"
      "stt c = 250 * of_int 400 * ((25 / 1000) / 100)"
      "transaction_charge c = 250 * of_int 400 * ((3 / 1000) / 100)"
      "sebi_charge c = 250 * of_int 400 * ((1 / 10000) / 100)"
      "gst c = (brokerage c + transaction_charge c + sebi_charge c) * (18 / 100)"
      "stamp_duty c = (if ''BUY'' = ''BUY'' then 250 * of_int 400 * ((3 / 1000) / 100) else 0)"
      "total_charges c = brokerage c + stt c + transaction_charge c + sebi_charge c
                            + gst c + stamp_duty c"
    by blast
  from c have "brokerage c = 20" "stt c = 25" "transaction_charge c = 3"
    "sebi_charge c = 1 / 10" "stamp_duty c = 3"
    by simp_all
  moreover from this c(6) have "gst c = 4158 / 1000" by simp
  moreover from calculation c(8) have "total_charges c = 55258 / 1000" by simp
  ultimately show ?thesis using h c(1) by simp
qed

text \<open>
  C6. For one table of non-negative rates and one side, the total charge of a fill
  with the smaller turnover (price times quantity) is not larger than that of a fill
  with the larger turnover, and the brokerage component is at most 20.
\<close>

theorem charges_monotone:
  assumes c1: "calculate_transaction_charges p1 q1 side cc = Inr c1"
    and c2: "calculate_transaction_charges p2 q2 side cc = Inr c2"
    and nonneg: "rates_nonneg cc side"
    and le: "p1 * of_int q1 \<le> p2 * of_int q2"
  shows "total_charges c1 \<le> total_charges c2 \<and> brokerage c1 \<le> 20 \<and> brokerage c2 \<le> 20"
proof -
  from calc_Inr_D[OF c1] obtain rates b s t e g where
    rs: "cc side = Some rates" "rates ''BROKERAGE'' = Some b" "rates ''STT'' = Some s"
      "rates ''TRANSACTION'' = Some t" "rates ''SEBI'' = Some e" "rates ''GST'' = Some g"
    and v1: "brokerage c1 = min (p1 * of_int q1 * (b / 100)) 20"
      "stt c1 = p1 * of_int q1 * (s / 100)"
      "transaction_charge c1 = p1 * of_int q1 * (t / 100)"
      "sebi_charge c1 = p1 * of_int q1 * (e / 100)"
      "gst c1 = (brokerage c1 + transaction_charge c1 + sebi_charge c1) * (g / 100)"
    and d1: "side = ''BUY'' \<longrightarrow>
        (\<exists>d. rates ''STAMP'' = Some d \<and> stamp_duty c1 = p1 * of_int q1 * (d / 100))"
      "side \<noteq> ''BUY'' \<longrightarrow> stamp_duty c1 = 0"
    and t1: "total_charges c1 = brokerage c1 + stt c1 + transaction_charge c1 + sebi_charge c1
                            + gst c1 + stamp_duty c1"
    by blast
  from calc_Inr_D[OF c2] obtain rates' b' s' t' e' g' where
    rs': "cc side = Some rates'" "rates' ''BROKERAGE'' = Some b'" "rates' ''STT'' = Some s'"
      "rates' ''TRANSACTION'' = Some t'" "rates' ''SEBI'' = Some e'" "rates' ''GST'' = Some g'"
    and v2': "brokerage c2 = min (p2 * of_int q2 * (b' / 100)) 20"
      "stt c2 = p2 * of_int q2 * (s' / 100)"
      "transaction_charge c2 = p2 * of_int q2 * (t' / 100)"
      "sebi_charge c2 = p2 * of_int q2 * (e' / 100)"
      "gst c2 = (brokerage c2 + transaction_charge c2 + sebi_charge c2) * (g' / 100)"
    and d2': "side = ''BUY'' \<longrightarrow>
        (\<exists>d. rates' ''STAMP'' = Some d \<and> stamp_duty c2 = p2 * of_int q2 * (d / 100))"
      "side \<noteq> ''BUY'' \<longrightarrow> stamp_duty c2 = 0"
    and t2: "total_charges c2 = brokerage c2 + stt c2 + transaction_charge c2 + sebi_charge c2
                            + gst c2 + stamp_duty c2"
    by blast
  from rs rs' have same: "rates' = rates" "b' = b" "s' = s" "t' = t" "e' = e" "g' = g"
    by simp_all
  note v2 = v2'[unfolded same] and d2 = d2'[unfolded same]
  have pos: "0 \<le> b / 100" "0 \<le> s / 100" "0 \<le> t / 100" "0 \<le> e / 100" "0 \<le> g / 100"
    using rates_nonnegD[OF nonneg rs(1)] rs(2-6) by (simp_all add: rate_keys_def)
  have br: "brokerage c1 \<le> brokerage c2"
    unfolding v1 v2 using mult_right_mono[OF le pos(1)] by (simp add: min_def)
  have st: "stt c1 \<le> stt c2"
    unfolding v1 v2 by (rule mult_right_mono[OF le pos(2)])
  have tr: "transaction_charge c1 \<le> transaction_charge c2"
    unfolding v1 v2 by (rule mult_right_mono[OF le pos(3)])
  have se: "sebi_charge c1 \<le> sebi_charge c2"
    unfolding v1 v2 by (rule mult_right_mono[OF le pos(4)])
  have gs: "gst c1 \<le> gst c2"
    unfolding v1(5) v2(5) using br tr se by (intro mult_right_mono pos(5)) simp
  have sd: "stamp_duty c1 \<le> stamp_duty c2"
  proof (cases "side = ''BUY''")
    case True
    from d1(1) d2(1) True obtain d where
      d: "rates ''STAMP'' = Some d" "stamp_duty c1 = p1 * of_int q1 * (d / 100)"
        "stamp_duty c2 = p2 * of_int q2 * (d / 100)"
      by auto
    have "0 \<le> d / 100"
      using rates_nonnegD[OF nonneg rs(1) d(1)] by (simp add: rate_keys_def)
    then show ?thesis
      unfolding d(2,3) by (rule mult_right_mono[OF le])
  next
    case False
    with d1(2) d2(2) show ?thesis by simp
  qed
  have "total_charges c1 \<le> total_charges c2"
    unfolding t1 t2 using br st tr se gs sd by simp
  moreover have "brokerage c1 \<le> 20" "brokerage c2 \<le> 20"
    unfolding v1 v2 by simp_all
  ultimately show ?thesis by simp
qed

lemmas charges_eval = calculate_transaction_charges_def rate_def Let_def
  sample_charges_def sample_rates_def zero_charges_def zero_rates_def

theorem charges_monotone_witness:
  "calculate_transaction_charges 100 10 ''BUY'' sample_charges
     = Inr \<lparr>total_charges = 67058 / 100000, brokerage = 3 / 10, stt = 25 / 100,
            transaction_charge = 3 / 100, sebi_charge = 1 / 1000, gst = 5958 / 100000,
            stamp_duty = 3 / 100\<rparr>
   \<and> calculate_transaction_charges 250 400 ''BUY'' sample_charges
     = Inr \<lparr>total_charges = 55258 / 1000, brokerage = 20, stt = 25,
            transaction_charge = 3, sebi_charge = 1 / 10, gst = 4158 / 1000,
            stamp_duty = 3\<rparr>
   \<and> rates_nonneg sample_charges ''BUY''
   \<and> (100 :: real) * of_int 10 \<le> 250 * of_int 400
   \<and> (67058 / 100000 :: real) \<le> 55258 / 1000 \<and> (3 / 10 :: real) \<le> 20"
proof -
  have h1: "calculate_transaction_charges 100 10 ''BUY'' sample_charges
     = Inr \<lparr>total_charges = 67058 / 100000, brokerage = 3 / 10, stt = 25 / 100,
            transaction_charge = 3 / 100, sebi_charge = 1 / 1000, gst = 5958 / 100000,
            stamp_duty = 3 / 100\<rparr>"
    by (simp add: charges_eval)
  have h2: "calculate_transaction_charges 250 400 ''BUY'' sample_charges
     = Inr \<lparr>total_charges = 55258 / 1000, brokerage = 20, stt = 25,
            transaction_charge = 3, sebi_charge = 1 / 10, gst = 4158 / 1000,
            stamp_duty = 3\<rparr>"
    by (simp add: charges_eval)
  have h3: "rates_nonneg sample_charges ''BUY''"
    by (simp add: rates_nonneg_def rate_keys_def charges_eval)
  have h4: "(100 :: real) * of_int 10 \<le> 250 * of_int 400"
    by simp
  from charges_monotone [OF h1 h2 h3 h4] h1 h2 h3 h4 show ?thesis
    by simp
qed

section \<open>Properties of the bar loop\<close>

lemmas time_eval = at_time_def trade_day_def market_close_time_def square_off_time_def
  no_new_buys_time_def ns_per_day_def ns_per_minute_def

lemmas engine_eval = init_state_def process_bar_def square_off_def square_off_position_def
  new_day_def buy_logic_def sell_logic_def sell_position_def exit_reason_def
  finish_def simulate_trades_def

lemmas input_eval = tc_plain_def tc_lev5_def tc_no_charges_def buy_0920_def fall_0925_def
  rise_1000_def buy_1400_def late_buy_1440_def hold_1440_def late_1500_def
  quiet_next_day_def next_day_1500_def poor_bar_def pos_a_def pos_b_def
  holding_def quiet_0915_def tc_sample_def
  next_day_0915_def

lemma nanosecond_shift:
  fixes ts K m :: int
  assumes "K = 1000 * m"
  shows "K + ts mod 1000 \<le> ts \<longleftrightarrow> K \<le> ts"
proof
  assume "K + ts mod 1000 \<le> ts"
  moreover have "0 \<le> ts mod 1000" by simp
  ultimately show "K \<le> ts" by linarith
next
  assume le: "K \<le> ts"
  have "(ts - K) mod 1000 = ts mod 1000"
    using assms by (metis mod_mult_self1_is_0 mod_diff_right_eq diff_zero mod_mod_trivial)
  moreover from le have "(ts - K) mod 1000 \<le> ts - K"
    by (intro zmod_le_nonneg_dividend) simp
  ultimately show "K + ts mod 1000 \<le> ts" by linarith
qed

text \<open>
  The cut-off the source computes keeps the nanosecond field of the bar's timestamp;
  comparing the timestamp with it is the same as comparing it with 15:00.
\<close>

lemma square_off_time_le_iff:
  "square_off_time ts \<le> ts \<longleftrightarrow> square_off_deadline ts \<le> ts"
proof -
  have sq: "square_off_time ts = square_off_deadline ts + ts mod 1000"
    by (simp add: square_off_time_def market_close_time_def square_off_deadline_def
          ns_per_minute_def)
  have "square_off_deadline ts = 1000 * (trade_day ts * 86400000000 + 54000000000)"
    by (simp add: square_off_deadline_def ns_per_day_def ns_per_minute_def)
  from nanosecond_shift[OF this] show ?thesis
    unfolding sq .
qed

lemma no_new_buys_before_square_off:
  "square_off_time ts \<le> ts \<Longrightarrow> no_new_buys_time ts \<le> ts"
  by (simp add: square_off_time_def no_new_buys_time_def ns_per_minute_def)

lemma square_off_position_D:
  assumes "square_off_position cc row s pos = Inr s'"
  shows "\<exists>d pl. calculate_transaction_charges (close row) (shares pos) ''SELL'' cc = Inr d
    \<and> pl = (of_int (shares pos) * close row - total_charges d)
             - (of_int (shares pos) * price pos + buy_charges pos)
    \<and> long_positions s' = remove1 pos (long_positions s)
    \<and> trades s' = trades s @
         [\<lparr>Time = timestamp row, Type = ''Square Off'', Price = close row,
           Shares = shares pos, Profit_Loss = pl,
           Charges = total_charges d, Brokerage = brokerage d, STT = stt d,
           Transaction_Charge = transaction_charge d,
           SEBI_Charge = sebi_charge d, GST = gst d,
           Stamp_Duty = stamp_duty d,
           Reason = ''Square Off Before Market Close''\<rparr>]
    \<and> capital s' = capital s + pl
    \<and> total_profit_loss s' = total_profit_loss s + pl
    \<and> free_cash s' = free_cash s
          + (margin_used pos + (of_int (shares pos) * close row - total_charges d))
    \<and> current_day s' = current_day s
    \<and> start_of_day_capital s' = start_of_day_capital s
    \<and> daily_summary s' = daily_summary s
    \<and> missed_signals s' = missed_signals s"
  using assms
  by (auto simp: square_off_position_def Let_def bind_err_Inr_iff)

lemma sell_position_None:
  "exit_reason row pos = None \<Longrightarrow> sell_position cc row s pos = Inr s"
  by (simp add: sell_position_def)

lemma sell_position_D:
  assumes "sell_position cc row s pos = Inr s'" and "exit_reason row pos = Some reason"
  shows "\<exists>d pl. calculate_transaction_charges (close row) (shares pos) ''SELL'' cc = Inr d
    \<and> pl = (of_int (shares pos) * close row - total_charges d)
             - (of_int (shares pos) * price pos + buy_charges pos)
    \<and> long_positions s' = remove1 pos (long_positions s)
    \<and> trades s' = trades s @
         [\<lparr>Time = timestamp row, Type = ''Sell'', Price = close row,
           Shares = shares pos, Profit_Loss = pl,
           Charges = total_charges d, Brokerage = brokerage d, STT = stt d,
           Transaction_Charge = transaction_charge d,
           SEBI_Charge = sebi_charge d, GST = gst d,
           Stamp_Duty = stamp_duty d,
           Reason = reason\<rparr>]
    \<and> capital s' = capital s + pl
    \<and> total_profit_loss s' = total_profit_loss s + pl
    \<and> free_cash s' = free_cash s
          + (margin_used pos + (of_int (shares pos) * close row - total_charges d))
    \<and> current_day s' = current_day s
    \<and> start_of_day_capital s' = start_of_day_capital s
    \<and> daily_summary s' = daily_summary s
    \<and> missed_signals s' = missed_signals s"
  using assms
  by (auto simp: sell_position_def Let_def bind_err_Inr_iff)

lemma new_day_fields:
  "long_positions (new_day row s) = long_positions s"
  "trades (new_day row s) = trades s"
  "capital (new_day row s) = capital s"
  "total_profit_loss (new_day row s) = total_profit_loss s"
  "missed_signals (new_day row s) = missed_signals s"
  by (simp_all add: new_day_def Let_def split: option.splits)

lemma buy_logic_no_signal: "\<not> Buy_Signal row \<Longrightarrow> buy_logic tc row s = Inr s"
  by (simp add: buy_logic_def)

lemma buy_logic_D:
  assumes "buy_logic tc row s = Inr s'"
  shows "capital s' = capital s \<and> total_profit_loss s' = total_profit_loss s
    \<and> current_day s' = current_day s \<and> start_of_day_capital s' = start_of_day_capital s
    \<and> daily_summary s' = daily_summary s"
  using assms
  by (auto simp: buy_logic_def Let_def bind_err_Inr_iff split: if_splits)


lemma has_rates_calc:
  assumes "has_rates cc side"
  shows "\<exists>c. calculate_transaction_charges p q side cc = Inr c"
proof -
  from assms obtain b s t e g where
    r: "rate cc side ''BROKERAGE'' = Inr b" "rate cc side ''STT'' = Inr s"
      "rate cc side ''TRANSACTION'' = Inr t" "rate cc side ''SEBI'' = Inr e"
      "rate cc side ''GST'' = Inr g"
    by (auto simp: has_rates_def required_keys_def split: sum.splits)
  show ?thesis
  proof (cases "side = ''BUY''")
    case True
    with assms obtain d where "rate cc ''BUY'' ''STAMP'' = Inr d"
      by (auto simp: has_rates_def required_keys_def split: sum.splits)
    with r True show ?thesis
      by (simp add: calculate_transaction_charges_def Let_def)
  next
    case False
    with r show ?thesis
      by (simp add: calculate_transaction_charges_def Let_def)
  qed
qed

lemma rate_error: "rate cc side k = Inl e \<Longrightarrow> e = KeyError"
  by (auto simp: rate_def split: option.splits)

lemma calc_error: "calculate_transaction_charges p q side cc = Inl e \<Longrightarrow> e = KeyError"
  by (auto simp: calculate_transaction_charges_def Let_def bind_err_def
           split: sum.splits if_splits dest: rate_error)

lemma not_has_rates_calc:
  assumes "\<not> has_rates cc side"
  shows "calculate_transaction_charges p q side cc = Inl KeyError"
proof (cases "calculate_transaction_charges p q side cc")
  case (Inl e)
  then show ?thesis using calc_error by simp
next
  case (Inr c)
  from calc_Inr_D[OF Inr] have "has_rates cc side"
    by (auto simp: has_rates_def required_keys_def rate_def)
  with assms show ?thesis by simp
qed

lemma square_off_loop_D:
  assumes "square_off_loop cc row s ps = Inr s'" and "long_positions s = ps"
  shows "long_positions s' = []
    \<and> (\<exists>new. trades s' = trades s @ new \<and> map Shares new = map shares ps
          \<and> (\<forall>t \<in> set new. Type t = ''Square Off''
                 \<and> Reason t = ''Square Off Before Market Close''
                 \<and> Price t = close row \<and> Time t = timestamp row))"
  using assms
proof (induction ps arbitrary: s)
  case Nil
  then show ?case by simp
next
  case (Cons pos rest)
  from Cons.prems(1) obtain s1 where
    s1: "square_off_position cc row s pos = Inr s1" and
    rest: "square_off_loop cc row s1 rest = Inr s'"
    by (auto simp: bind_err_Inr_iff)
  from square_off_position_D[OF s1] Cons.prems(2) obtain t where
    t: "long_positions s1 = rest" "trades s1 = trades s @ [t]" "Shares t = shares pos"
      "Type t = ''Square Off''" "Reason t = ''Square Off Before Market Close''"
      "Price t = close row" "Time t = timestamp row"
    by auto
  from Cons.IH[OF rest t(1)] obtain new where
    new: "long_positions s' = []" "trades s' = trades s1 @ new"
      "map Shares new = map shares rest"
      "\<forall>t \<in> set new. Type t = ''Square Off''
                 \<and> Reason t = ''Square Off Before Market Close''
                 \<and> Price t = close row \<and> Time t = timestamp row"
    by blast
  have "trades s' = trades s @ (t # new)"
    using new(2) t(2) by simp
  moreover have "map Shares (t # new) = map shares (pos # rest)"
    using new(3) t(3) by simp
  moreover have "\<forall>u \<in> set (t # new). Type u = ''Square Off''
                 \<and> Reason u = ''Square Off Before Market Close''
                 \<and> Price u = close row \<and> Time u = timestamp row"
    using new(4) t(4-7) by simp
  ultimately show ?case using new(1) by blast
qed

lemma square_off_loop_total:
  assumes "has_rates cc ''SELL''"
  shows "\<exists>s'. square_off_loop cc row s ps = Inr s'"
proof (induction ps arbitrary: s)
  case Nil
  then show ?case by simp
next
  case (Cons pos rest)
  from has_rates_calc[OF assms] obtain d where
    "calculate_transaction_charges (close row) (shares pos) ''SELL'' cc = Inr d"
    by blast
  then obtain s1 where "square_off_position cc row s pos = Inr s1"
    by (simp add: square_off_position_def Let_def)
  with Cons.IH[of s1] show ?case by simp
qed

lemma square_off_D:
  assumes "square_off cc row s = Inr s1" and "square_off_time (timestamp row) \<le> timestamp row"
  shows "long_positions s1 = []
    \<and> (\<exists>new. trades s1 = trades s @ new \<and> map Shares new = map shares (long_positions s)
          \<and> (\<forall>t \<in> set new. Type t = ''Square Off''
                 \<and> Reason t = ''Square Off Before Market Close''
                 \<and> Price t = close row \<and> Time t = timestamp row))"
proof (cases "long_positions s = []")
  case True
  with assms show ?thesis by (simp add: square_off_def)
next
  case False
  with assms have "square_off_loop cc row s (long_positions s) = Inr s1"
    by (simp add: square_off_def)
  from square_off_loop_D[OF this refl] show ?thesis .
qed

lemma square_off_total:
  "has_rates cc ''SELL'' \<Longrightarrow> \<exists>s1. square_off cc row s = Inr s1"
  using square_off_loop_total[of cc row s "long_positions s"]
  by (simp add: square_off_def)

lemma sell_logic_empty: "long_positions s = [] \<Longrightarrow> sell_logic cc row s = Inr s"
  by (simp add: sell_logic_def)

lemma process_bar_late:
  assumes "square_off_time (timestamp row) \<le> timestamp row"
    and "square_off (CHARGES tc) row s = Inr s1"
  shows "process_bar tc row s =
     Inr (if Buy_Signal row
          then (new_day row s1)\<lparr>missed_signals := missed_signals (new_day row s1) @
                  [\<lparr>Missed_Time = timestamp row, Missed_Price = close row,
                    Missed_Reason = ''Buy restricted near market close''\<rparr>]\<rparr>
          else new_day row s1)"
proof -
  have e: "long_positions (new_day row s1) = []"
    using square_off_D[OF assms(2,1)] by (simp add: new_day_fields)
  show ?thesis
    using assms no_new_buys_before_square_off[OF assms(1)] e
    by (simp add: process_bar_def Let_def buy_logic_no_signal sell_logic_empty)
qed

text \<open>
  C9. On a bar at or past the square-off deadline of its day (market close minus 30
  minutes), whenever the bar is processed without error the ledger is empty afterwards,
  the trades added by the bar are exactly one per position that was open, in ledger
  order, each of type Square Off at the bar's close price with reason "Square Off Before
  Market Close", whatever the bar's signals; no Buy trade and no new position is added.
  With every SELL rate present the bar is processed without error.
\<close>

theorem square_off_clears_ledger:
  assumes "square_off_deadline (timestamp row) \<le> timestamp row"
  shows "(\<forall>s'. process_bar tc row s = Inr s' \<longrightarrow>
            long_positions s' = []
            \<and> (\<exists>new. trades s' = trades s @ new
                  \<and> map Shares new = map shares (long_positions s)
                  \<and> (\<forall>t \<in> set new. Type t = ''Square Off''
                         \<and> Reason t = ''Square Off Before Market Close''
                         \<and> Price t = close row \<and> Time t = timestamp row)))
       \<and> (has_rates (CHARGES tc) ''SELL'' \<longrightarrow> (\<exists>s'. process_bar tc row s = Inr s'))"
proof (intro conjI allI impI)
  from assms have late: "square_off_time (timestamp row) \<le> timestamp row"
    by (simp add: square_off_time_le_iff)
  fix s'
  assume p: "process_bar tc row s = Inr s'"
  then obtain s1 where s1: "square_off (CHARGES tc) row s = Inr s1"
    by (auto simp: process_bar_def bind_err_Inr_iff)
  from process_bar_late[OF late s1] p
  have lp: "long_positions s' = long_positions s1" and tr: "trades s' = trades s1"
    by (auto simp: new_day_fields split: if_splits)
  from square_off_D[OF s1 late] lp show "long_positions s' = []" by simp
  from square_off_D[OF s1 late] tr
  show "\<exists>new. trades s' = trades s @ new
                  \<and> map Shares new = map shares (long_positions s)
                  \<and> (\<forall>t \<in> set new. Type t = ''Square Off''
                         \<and> Reason t = ''Square Off Before Market Close''
                         \<and> Price t = close row \<and> Time t = timestamp row)"
    by simp
next
  from assms have late: "square_off_time (timestamp row) \<le> timestamp row"
    by (simp add: square_off_time_le_iff)
  assume "has_rates (CHARGES tc) ''SELL''"
  from square_off_total[OF this] obtain s1 where "square_off (CHARGES tc) row s = Inr s1"
    by blast
  from process_bar_late[OF late this] show "\<exists>s'. process_bar tc row s = Inr s'"
    by simp
qed

theorem square_off_clears_ledger_witness:
  "square_off_deadline (timestamp late_1500) \<le> timestamp late_1500
   \<and> has_rates (CHARGES tc_plain) ''SELL''
   \<and> map_sum id long_positions (process_bar tc_plain late_1500 holding) = Inr []
   \<and> map_sum id (map Reason \<circ> trades) (process_bar tc_plain late_1500 holding)
       = Inr [''Square Off Before Market Close'', ''Square Off Before Market Close'']
   \<and> map_sum id (map Shares \<circ> trades) (process_bar tc_plain late_1500 holding) = Inr [1, 2]"
proof -
  have h: "square_off_deadline (timestamp late_1500) \<le> timestamp late_1500"
    by (simp add: late_1500_def square_off_deadline_def time_eval)
  have r: "has_rates (CHARGES tc_plain) ''SELL''"
    by (simp add: has_rates_def required_keys_def tc_plain_def charges_eval)
  from square_off_clears_ledger [OF h, of tc_plain holding] r
  obtain s' where s': "process_bar tc_plain late_1500 holding = Inr s'"
    "long_positions s' = []"
    by blast
  have t: "map_sum id trades (process_bar tc_plain late_1500 holding)
     = Inr (map (\<lambda>(n, pl). \<lparr>Time = at_time 1 15 0, Type = ''Square Off'', Price = 105,
           Shares = n, Profit_Loss = pl, Charges = 0, Brokerage = 0, STT = 0,
           Transaction_Charge = 0, SEBI_Charge = 0, GST = 0, Stamp_Duty = 0,
           Reason = ''Square Off Before Market Close''\<rparr>) [(1, 5), (2, 10)])"
    by (simp add: engine_eval input_eval time_eval charges_eval)
  from h r s' t show ?thesis
    by (simp add: sum.map_comp [symmetric] del: sum.map_comp)
qed

lemma sell_loop_D:
  assumes "sell_loop cc row s ps = Inr s'" and "long_positions s = q @ ps"
    and "\<forall>x \<in> set q. exit_reason row x = None"
  shows "long_positions s' = q @ filter (\<lambda>pos. exit_reason row pos = None) ps
    \<and> (\<exists>new. trades s' = trades s @ new
          \<and> map Reason new = List.map_filter (exit_reason row) ps
          \<and> list_all (\<lambda>t. Type t = ''Sell'' \<and> Price t = close row) new)"
  using assms
proof (induction ps arbitrary: s q)
  case Nil
  then show ?case by (simp add: List.map_filter_simps)
next
  case (Cons pos rest)
  from Cons.prems(1) obtain s1 where
    s1: "sell_position cc row s pos = Inr s1" and
    rest: "sell_loop cc row s1 rest = Inr s'"
    by (auto simp: bind_err_Inr_iff)
  show ?case
  proof (cases "exit_reason row pos")
    case None
    with s1 have eq: "s1 = s" by (simp add: sell_position_None)
    have lp: "long_positions s1 = (q @ [pos]) @ rest"
      using Cons.prems(2) eq by simp
    have q': "\<forall>x \<in> set (q @ [pos]). exit_reason row x = None"
      using Cons.prems(3) None by simp
    from Cons.IH[OF rest lp q'] None eq show ?thesis
      by (simp add: List.map_filter_simps)
  next
    case (Some reason)
    from sell_position_D[OF s1 Some] obtain t where
      t: "long_positions s1 = remove1 pos (long_positions s)" "trades s1 = trades s @ [t]"
        "Reason t = reason" "Type t = ''Sell''" "Price t = close row"
      by auto
    have "pos \<notin> set q" using Cons.prems(3) Some by auto
    then have lp: "long_positions s1 = q @ rest"
      using t(1) Cons.prems(2) by (simp add: remove1_append)
    from Cons.IH[OF rest lp Cons.prems(3)] obtain new where
      new: "long_positions s' = q @ filter (\<lambda>pos. exit_reason row pos = None) rest"
        "trades s' = trades s1 @ new"
        "map Reason new = List.map_filter (exit_reason row) rest"
        "list_all (\<lambda>t. Type t = ''Sell'' \<and> Price t = close row) new"
      by blast
    have "trades s' = trades s @ (t # new)"
      using new(2) t(2) by simp
    moreover have "map Reason (t # new) = List.map_filter (exit_reason row) (pos # rest)"
      using new(3) t(3) Some by (simp add: List.map_filter_simps)
    moreover have "list_all (\<lambda>t. Type t = ''Sell'' \<and> Price t = close row) (t # new)"
      using new(4) t(4,5) by simp
    moreover have "long_positions s' = q @ filter (\<lambda>pos. exit_reason row pos = None) (pos # rest)"
      using new(1) Some by simp
    ultimately show ?thesis by blast
  qed
qed

lemma exit_reason_None_iff:
  "exit_reason row pos = None \<longleftrightarrow>
     \<not> Sell_Signal row \<and> close row < target_price pos \<and> trailing_stop_loss pos < close row
       \<and> timestamp row < square_off_time (timestamp row)"
  by (auto simp: exit_reason_def)

text \<open>
  C2. The sell logic of a bar gives every open position the first matching reason of
  the fixed order: sell signal, close at or above the target price, close at or below
  the trailing stop, timestamp at or past the square-off deadline. The reasons of the
  Sell trades it appends are those first matches, in ledger order, and the positions
  left open are those that match none. In particular a position whose target is reached
  on a bar without sell signal is sold with "Target Profit Reached".
\<close>

theorem exit_priority:
  assumes "sell_logic cc row s = Inr s'"
  shows "(\<exists>new. trades s' = trades s @ new
          \<and> list_all (\<lambda>t. Type t = ''Sell'' \<and> Price t = close row) new
          \<and> map Reason new = List.map_filter
               (\<lambda>pos. if Sell_Signal row then Some ''Sell Signal Triggered''
                      else if target_price pos \<le> close row then Some ''Target Profit Reached''
                      else if close row \<le> trailing_stop_loss pos
                        then Some ''Trailing Stop-Loss Triggered''
                      else if square_off_time (timestamp row) \<le> timestamp row
                        then Some ''Square Off Before Market Close''
                      else None)
               (long_positions s))
     \<and> long_positions s' = filter
           (\<lambda>pos. \<not> Sell_Signal row \<and> close row < target_price pos
                  \<and> trailing_stop_loss pos < close row
                  \<and> timestamp row < square_off_time (timestamp row))
           (long_positions s)"
proof -
  have loop: "sell_loop cc row s (long_positions s) = Inr s'"
    using assms by (cases "long_positions s = []") (simp_all add: sell_logic_def)
  have r: "(\<lambda>pos. if Sell_Signal row then Some ''Sell Signal Triggered''
                      else if target_price pos \<le> close row then Some ''Target Profit Reached''
                      else if close row \<le> trailing_stop_loss pos
                        then Some ''Trailing Stop-Loss Triggered''
                      else if square_off_time (timestamp row) \<le> timestamp row
                        then Some ''Square Off Before Market Close''
                      else None) = exit_reason row"
    by (rule ext) (simp add: exit_reason_def)
  from sell_loop_D[OF loop, of "[]"] show ?thesis
    unfolding r by (auto simp: exit_reason_None_iff)
qed

theorem exit_priority_witness:
  "map_sum id (map Reason \<circ> trades) (sell_logic zero_charges rise_1000 holding)
       = Inr [''Target Profit Reached'']
   \<and> map_sum id long_positions (sell_logic zero_charges rise_1000 holding) = Inr [pos_b]"
proof -
  obtain s' where h: "sell_logic zero_charges rise_1000 holding = Inr s'"
    by (simp add: engine_eval input_eval time_eval charges_eval)
  from exit_priority [OF h] h show ?thesis
    by (simp add: engine_eval input_eval time_eval charges_eval List.map_filter_simps)
qed

section \<open>Capital and cumulative profit\<close>

lemma two_powr_of_int:
  "(2::real) powr of_int e = (if 0 \<le> e then 2 ^ nat e else 1 / 2 ^ nat (- e))"
  by (simp add: powr_real_of_int inverse_eq_divide)

lemma round_half_even_of_int [simp]: "round_half_even (of_int n) = n"
  by (simp add: round_half_even_def)

lemma round_double_binade:
  assumes "x \<noteq> 0" and "2 powr of_int k \<le> \<bar>x\<bar>" and "\<bar>x\<bar> < 2 powr (of_int k + 1)"
    and "- 1022 \<le> k"
  shows "round_double x
     = of_int (round_half_even (x / 2 powr of_int (k - 52))) * 2 powr of_int (k - 52)"
proof -
  have "\<lfloor>log 2 \<bar>x\<bar>\<rfloor> = k"
    using assms(1-3) by (simp add: floor_log_eq_powr_iff)
  moreover have "max (k - 52) (- 1074) = k - 52"
    using assms(4) by simp
  ultimately show ?thesis
    using assms(1) by (simp add: round_double_def Let_def)
qed

text \<open>Whole numbers of magnitude at most 2^53 are doubles.\<close>

lemma round_double_int:
  assumes "\<bar>n\<bar> \<le> 2 ^ 53"
  shows "round_double (of_int n) = of_int n"
proof (cases "n = 0")
  case True
  then show ?thesis by (simp add: round_double_def)
next
  case False
  define x :: real where "x = of_int n"
  have x0: "x \<noteq> 0" and x1: "1 \<le> \<bar>x\<bar>"
    using False by (simp_all add: x_def flip: of_int_abs)
  define k where "k = \<lfloor>log 2 \<bar>x\<bar>\<rfloor>"
  have kb: "2 powr of_int k \<le> \<bar>x\<bar>" "\<bar>x\<bar> < 2 powr (of_int k + 1)"
    using x0 floor_log_eq_powr_iff[of "\<bar>x\<bar>" 2 k] by (simp_all add: k_def)
  have k0: "0 \<le> k"
    unfolding k_def using x1 by (simp add: zero_le_log_cancel_iff)
  have "\<bar>x\<bar> \<le> 2 ^ 53"
    using assms by (simp add: x_def flip: of_int_abs)
  then have "log 2 \<bar>x\<bar> \<le> 53"
    using x0 by (simp add: log_le_iff powr_realpow[symmetric] flip: powr_numeral)
  then have k53: "k \<le> 53"
    unfolding k_def by (simp add: floor_le_iff)
  define P :: real where "P = 2 powr of_int (k - 52)"
  have rd: "round_double x = of_int (round_half_even (x / P)) * P"
    unfolding P_def using round_double_binade[OF x0 kb] k0 by simp
  show ?thesis
  proof (cases "k \<le> 52")
    case True
    define j where "j = nat (52 - k)"
    have p: "P = 1 / 2 ^ j"
      unfolding P_def using True two_powr_of_int[of "k - 52"]
      by (cases "k = 52") (simp_all add: j_def)
    have "x / P = of_int (n * 2 ^ j)"
      by (simp add: p x_def)
    then have "round_half_even (x / P) = n * 2 ^ j"
      by (simp only: round_half_even_of_int)
    with rd p show ?thesis by (simp add: x_def)
  next
    case False
    with k53 have k: "k = 53" by simp
    from kb(1) k have "2 ^ 53 \<le> \<bar>x\<bar>"
      by (simp add: powr_realpow[symmetric] flip: powr_numeral)
    with \<open>\<bar>x\<bar> \<le> 2 ^ 53\<close> have ax: "\<bar>x\<bar> = 2 ^ 53" by simp
    have p: "P = 2"
      unfolding P_def using k by simp
    have "\<exists>m::int. x / 2 = of_int m"
    proof (cases "0 \<le> x")
      case True
      with ax have "x / 2 = of_int (2 ^ 52)" by simp
      then show ?thesis by blast
    next
      case False
      with ax have "x / 2 = of_int (- (2 ^ 52))" by simp
      then show ?thesis by blast
    qed
    then obtain m :: int where m: "x / 2 = of_int m" by blast
    have "round_half_even (x / P) = m"
      unfolding p m by (rule round_half_even_of_int)
    with rd p m show ?thesis by (simp add: x_def)
  qed
qed


lemma round_double_tie:
  "round_double 9007199254740993 = 9007199254740992"
proof -
  have "round_double 9007199254740993
     = of_int (round_half_even (9007199254740993 / 2 powr of_int (53 - 52))) * 2 powr of_int (53 - 52)"
    by (rule round_double_binade) (simp_all add: two_powr_of_int powr_add)
  also have "\<dots> = 9007199254740992"
    by (simp add: round_half_even_def Let_def)
  finally show ?thesis .
qed

lemma dadd_int:
  "\<bar>a + b\<bar> \<le> 2 ^ 53 \<Longrightarrow> dadd (of_int a) (of_int b) = of_int a + of_int b"
  using round_double_int[of "a + b"] by (simp add: dadd_def)

lemma tiny_run_exit_profits: "map_sum id (exit_profits \<circ> trades)
         (run_bars tc_tiny (init_state 9007199254740992) tiny_bars) = Inr [1, 1]"
  by (simp add: engine_eval input_eval time_eval charges_eval tc_tiny_def tiny_bars_def exit_profits_def)

lemma capital_acc_tiny: "capital_acc 9007199254740992 [1, 1] = 9007199254740992"
  using round_double_tie by (simp add: capital_acc_def dadd_def)

lemma total_profit_loss_acc_tiny: "total_profit_loss_acc [1, 1] = 2"
  using dadd_int[of 0 1] dadd_int[of 1 1] by (simp add: total_profit_loss_acc_def)

lemma final_capital_acc_tiny: "final_capital_acc 9007199254740992 [1, 1] = 9007199254740994"
  using total_profit_loss_acc_tiny round_double_binade[of 9007199254740994 53]
  by (simp add: final_capital_acc_def dadd_def two_powr_of_int powr_add round_half_even_def Let_def)


lemma foldl_dadd_exact:
  "sums_exact a pls \<Longrightarrow> foldl dadd a pls = a + sum_list pls"
  by (induction pls arbitrary: a) (simp_all add: add.assoc)


lemma sum_list_abs_nonneg: "0 \<le> sum_list (map abs (ps :: int list))"
  by (induction ps) simp_all

lemma sums_exact_int:
  "\<bar>a\<bar> + sum_list (map abs ps) \<le> 2 ^ 53 \<Longrightarrow> sums_exact (of_int a) (map of_int ps)"
proof (induction ps arbitrary: a)
  case Nil
  then show ?case by simp
next
  case (Cons p ps)
  have nn: "0 \<le> sum_list (map abs ps)" by (rule sum_list_abs_nonneg)
  from Cons.prems nn have "\<bar>a + p\<bar> \<le> 2 ^ 53" by simp
  then have d: "dadd (of_int a) (of_int p) = of_int a + of_int p"
    by (rule dadd_int)
  from Cons.prems have "\<bar>a + p\<bar> + sum_list (map abs ps) \<le> 2 ^ 53" by simp
  from Cons.IH[OF this] have "sums_exact (of_int a + of_int p) (map of_int ps)"
    by simp
  with d show ?case by simp
qed

lemma abs_sum_list_le: "\<bar>sum_list (ps :: int list)\<bar> \<le> sum_list (map abs ps)"
  by (induction ps) auto

lemma accumulators_exact:
  assumes "sums_exact initial_capital pls" and "sums_exact 0 pls"
    and "dadd initial_capital (sum_list pls) = initial_capital + sum_list pls"
  shows "capital_acc initial_capital pls = initial_capital + total_profit_loss_acc pls"
    and "capital_acc initial_capital pls = final_capital_acc initial_capital pls"
proof -
  from assms(1,2) have c: "capital_acc initial_capital pls = initial_capital + sum_list pls"
    and t: "total_profit_loss_acc pls = sum_list pls"
    by (simp_all add: capital_acc_def total_profit_loss_acc_def foldl_dadd_exact)
  from c t show "capital_acc initial_capital pls = initial_capital + total_profit_loss_acc pls"
    by simp
  from assms(3) c t show "capital_acc initial_capital pls = final_capital_acc initial_capital pls"
    by (simp add: final_capital_acc_def)
qed

text \<open>
  C3, as stated, fails in double arithmetic. With initial capital \<open>2^53\<close>, allocation
  \<open>2^-53\<close>, leverage 1 and no charges, the run \<open>tiny_bars\<close> buys one share at 1 and sells
  it at 2, twice: the realised profits are 1 and 1 (prices, share count and the zero
  charges involve no rounding). The running capital stays \<open>2^53\<close>, because \<open>2^53 + 1\<close> is
  a tie that rounds to the even neighbour \<open>2^53\<close> both times, while the total
  profit/loss is 2 and the final capital of the summary is \<open>2^53 + 2\<close>.
\<close>

theorem accumulators_round_counterexample:
  "map_sum id (exit_profits \<circ> trades)
       (run_bars tc_tiny (init_state 9007199254740992) tiny_bars) = Inr [1, 1]
   \<and> total_profit_loss_acc [1, 1] = 2
   \<and> capital_acc 9007199254740992 [1, 1] = 9007199254740992
   \<and> final_capital_acc 9007199254740992 [1, 1] = 9007199254740994
   \<and> capital_acc 9007199254740992 [1, 1] \<noteq> 9007199254740992 + total_profit_loss_acc [1, 1]"
  by (simp add: tiny_run_exit_profits capital_acc_tiny total_profit_loss_acc_tiny final_capital_acc_tiny)

text \<open>
  C3, amended. The running capital and the total profit/loss are two accumulators that
  receive the same profits in the same order. The running capital equals the initial
  capital plus the total profit/loss, and the final capital, when no addition of either
  accumulator rounds and the initial capital plus the sum of the profits is a double.
  This is the case for whole amounts \<open>a\<close> and \<open>ps\<close> with \<open>|a|\<close> plus the sum of the
  \<open>|p|\<close> at most \<open>2^53\<close>. The final capital of the summary is computed as
  initial capital plus total profit/loss (line 225), so that equation holds in every
  summary, and the summary repeats the initial capital.
\<close>

theorem accumulators_agree_without_rounding:
  "(sums_exact initial_capital pls \<and> sums_exact 0 pls
      \<and> dadd initial_capital (sum_list pls) = initial_capital + sum_list pls \<longrightarrow>
        capital_acc initial_capital pls = initial_capital + total_profit_loss_acc pls
        \<and> capital_acc initial_capital pls = final_capital_acc initial_capital pls)
   \<and> (\<bar>a\<bar> + sum_list (map abs ps) \<le> 2 ^ 53 \<longrightarrow>
        sums_exact (of_int a) (map of_int ps) \<and> sums_exact 0 (map of_int ps)
        \<and> dadd (of_int a) (sum_list (map of_int ps)) = of_int a + sum_list (map of_int ps))
   \<and> (\<forall>r. simulate_trades rows initial_capital tc = Inr r \<longrightarrow>
          Final_Capital (summary r) = initial_capital + Total_Profit_Loss (summary r)
          \<and> Initial_Capital (summary r) = initial_capital)"
proof (intro conjI allI impI)
  assume a: "sums_exact initial_capital pls \<and> sums_exact 0 pls
      \<and> dadd initial_capital (sum_list pls) = initial_capital + sum_list pls"
  then show "capital_acc initial_capital pls = initial_capital + total_profit_loss_acc pls"
    by (intro accumulators_exact(1)) simp_all
  from a show "capital_acc initial_capital pls = final_capital_acc initial_capital pls"
    by (intro accumulators_exact(2)) simp_all
next
  assume b: "\<bar>a\<bar> + sum_list (map abs ps) \<le> 2 ^ 53"
  then show "sums_exact (of_int a) (map of_int ps)"
    by (rule sums_exact_int)
  have nn: "0 \<le> \<bar>a\<bar>" by simp
  from b nn have "\<bar>0 :: int\<bar> + sum_list (map abs ps) \<le> 2 ^ 53" by simp
  from sums_exact_int[OF this] show "sums_exact 0 (map of_int ps)" by simp
  have s: "sum_list (map of_int ps) = (of_int (sum_list ps) :: real)"
    by (induction ps) simp_all
  from b abs_sum_list_le[of ps] have "\<bar>a + sum_list ps\<bar> \<le> 2 ^ 53" by simp
  from dadd_int[OF this]
  show "dadd (of_int a) (sum_list (map of_int ps)) = of_int a + sum_list (map of_int ps)"
    by (simp add: s)
next
  fix r assume r: "simulate_trades rows initial_capital tc = Inr r"
  then show "Final_Capital (summary r) = initial_capital + Total_Profit_Loss (summary r)"
    by (auto simp: simulate_trades_def bind_err_Inr_iff finish_def Let_def)
  from r show "Initial_Capital (summary r) = initial_capital"
    by (auto simp: simulate_trades_def bind_err_Inr_iff finish_def Let_def)
qed

theorem accumulators_agree_without_rounding_witness:
  "sums_exact 100 [5, 7] \<and> sums_exact 0 [5, 7]
   \<and> dadd 100 (sum_list [5, 7]) = 100 + sum_list [5, 7]
   \<and> capital_acc 100 [5, 7] = 112 \<and> total_profit_loss_acc [5, 7] = 12
   \<and> final_capital_acc 100 [5, 7] = 112
   \<and> map_sum id (Final_Capital \<circ> summary) (simulate_trades [buy_0920, fall_0925] 100 tc_lev5)
       = Inr (- 150)
   \<and> map_sum id (Total_Profit_Loss \<circ> summary) (simulate_trades [buy_0920, fall_0925] 100 tc_lev5)
       = Inr (- 250)"
proof -
  have b: "\<bar>100 :: int\<bar> + sum_list (map abs [5, 7]) \<le> 2 ^ 53"
    by simp
  from accumulators_agree_without_rounding
         [where a = 100 and ps = "[5, 7]", THEN conjunct2, THEN conjunct1, THEN mp, OF b]
  have h: "sums_exact 100 [5, 7] \<and> sums_exact 0 [5, 7]
      \<and> dadd 100 (sum_list [5, 7]) = 100 + sum_list [5, 7]"
    by simp
  from accumulators_agree_without_rounding
         [where initial_capital = 100 and pls = "[5, 7]", THEN conjunct1, THEN mp, OF h]
  have c: "capital_acc 100 [5, 7] = 100 + total_profit_loss_acc [5, 7]
      \<and> capital_acc 100 [5, 7] = final_capital_acc 100 [5, 7]" .
  from h have t: "total_profit_loss_acc [5, 7] = 12"
    by (simp add: total_profit_loss_acc_def)
  have e: "map_sum id (Total_Profit_Loss \<circ> summary)
             (simulate_trades [buy_0920, fall_0925] 100 tc_lev5) = Inr (- 250)"
    by (simp add: engine_eval input_eval time_eval charges_eval)
  then obtain r where r: "simulate_trades [buy_0920, fall_0925] 100 tc_lev5 = Inr r"
    and tp: "Total_Profit_Loss (summary r) = - 250"
    by (cases "simulate_trades [buy_0920, fall_0925] 100 tc_lev5") auto
  from accumulators_agree_without_rounding
         [where rows = "[buy_0920, fall_0925]" and initial_capital = 100 and tc = tc_lev5,
           THEN conjunct2, THEN conjunct2, THEN spec, THEN mp, OF r]
  have "Final_Capital (summary r) = 100 + Total_Profit_Loss (summary r)"
    by simp
  with r tp have f: "map_sum id (Final_Capital \<circ> summary)
             (simulate_trades [buy_0920, fall_0925] 100 tc_lev5) = Inr (- 150)"
    by simp
  from h c t e f show ?thesis
    by simp
qed


text \<open>
  C1. The \<open>continue\<close> of the no-new-buys cut-off (source line 129) ends the iteration
  before the sell logic. With one position bought at 09:20 for 100 (target 110), a bar at
  14:40 closing at 120 that carries a buy signal records the missed signal and leaves the
  position open with no Sell trade; the same bar without the buy signal sells the
  position with "Target Profit Reached".
\<close>

theorem buy_cutoff_skips_exit_evaluation:
  "map_sum id (map Type \<circ> trades) (run_bars tc_plain (init_state 100) [buy_0920, late_buy_1440])
       = Inr [''Buy'']
   \<and> map_sum id (map target_price \<circ> long_positions)
         (run_bars tc_plain (init_state 100) [buy_0920, late_buy_1440]) = Inr [110]
   \<and> map_sum id (map Missed_Reason \<circ> missed_signals)
         (run_bars tc_plain (init_state 100) [buy_0920, late_buy_1440])
       = Inr [''Buy restricted near market close'']
   \<and> map_sum id (map Reason \<circ> trades)
         (run_bars tc_plain (init_state 100) [buy_0920, hold_1440])
       = Inr [''Buy Signal'', ''Target Profit Reached'']
   \<and> map_sum id long_positions
         (run_bars tc_plain (init_state 100) [buy_0920, hold_1440]) = Inr []"
  by (simp add: engine_eval input_eval time_eval charges_eval)

section \<open>Order of square-off and day rollover\<close>

text \<open>
  C10. The source runs the square-off block (lines 78 to 107) before the new-day block
  (lines 109 to 123). A position bought on day 1 at 14:00 for 100 is still open when the
  first bar of day 2 arrives at 15:00 with close 105. Capital is 100 when the day
  changes, but the Square Off trade of day 2 (profit 5) is booked first: the snapshot of
  day 1 ends with 105, day 2 starts with 105, free cash is 105 after the bar and the
  daily profit tally it was added to is zeroed by the rollover of the same bar. With the
  rollover first, as the claim has it, the snapshot of day 1 would end with 100, day 2
  would start with 100, free cash would be 305 and the tally 5. An exit made by the sell
  logic on the first bar of day 2 (09:15, close 112) is booked after the rollover: day 1
  ends with 100 and the tally of day 2 is 12.
\<close>

theorem square_off_runs_before_rollover:
  "map_sum id capital (run_bars tc_plain (init_state 100) [buy_1400]) = Inr 100
   \<and> map_sum id current_day (run_bars tc_plain (init_state 100) [buy_1400]) = Inr (Some 1)
   \<and> trade_day (timestamp next_day_1500) = 2
   \<and> map_sum id (map Profit_Loss \<circ> trades)
         (run_bars tc_plain (init_state 100) [buy_1400, next_day_1500]) = Inr [0, 5]
   \<and> map_sum id (map Time \<circ> trades)
         (run_bars tc_plain (init_state 100) [buy_1400, next_day_1500])
       = Inr [at_time 1 14 0, at_time 2 15 0]
   \<and> map_sum id daily_summary (run_bars tc_plain (init_state 100) [buy_1400, next_day_1500])
       = Inr [\<lparr>Date = 1, Start_of_Day_Capital = 100, End_of_Day_Capital = 105\<rparr>]
   \<and> map_sum id start_of_day_capital
         (run_bars tc_plain (init_state 100) [buy_1400, next_day_1500]) = Inr 105
   \<and> map_sum id free_cash
         (run_bars tc_plain (init_state 100) [buy_1400, next_day_1500]) = Inr 105
   \<and> map_sum id daily_profit_loss
         (run_bars tc_plain (init_state 100) [buy_1400, next_day_1500]) = Inr 0
   \<and> map_sum id daily_summary
         (bind_err (run_bars tc_plain (init_state 100) [buy_1400])
            (process_bar_rollover_first tc_plain next_day_1500))
       = Inr [\<lparr>Date = 1, Start_of_Day_Capital = 100, End_of_Day_Capital = 100\<rparr>]
   \<and> map_sum id start_of_day_capital
         (bind_err (run_bars tc_plain (init_state 100) [buy_1400])
            (process_bar_rollover_first tc_plain next_day_1500)) = Inr 100
   \<and> map_sum id free_cash
         (bind_err (run_bars tc_plain (init_state 100) [buy_1400])
            (process_bar_rollover_first tc_plain next_day_1500)) = Inr 305
   \<and> map_sum id daily_profit_loss
         (bind_err (run_bars tc_plain (init_state 100) [buy_1400])
            (process_bar_rollover_first tc_plain next_day_1500)) = Inr 5
   \<and> map_sum id (map Reason \<circ> trades)
         (run_bars tc_plain (init_state 100) [buy_1400, next_day_0915])
       = Inr [''Buy Signal'', ''Target Profit Reached'']
   \<and> map_sum id daily_summary (run_bars tc_plain (init_state 100) [buy_1400, next_day_0915])
       = Inr [\<lparr>Date = 1, Start_of_Day_Capital = 100, End_of_Day_Capital = 100\<rparr>]
   \<and> map_sum id daily_profit_loss
         (run_bars tc_plain (init_state 100) [buy_1400, next_day_0915]) = Inr 12"
  by (simp add: engine_eval input_eval time_eval charges_eval process_bar_rollover_first_def)

lemma square_off_before_no_new_buys:
  "ts < no_new_buys_time ts \<Longrightarrow> ts < square_off_time ts"
  by (simp add: square_off_time_def no_new_buys_time_def ns_per_minute_def)

lemma square_off_early: "timestamp row < square_off_time (timestamp row) \<Longrightarrow> square_off cc row s = Inr s"
  by (simp add: square_off_def)

lemma square_off_empty: "long_positions s = [] \<Longrightarrow> square_off cc row s = Inr s"
  by (simp add: square_off_def)

lemma new_day_rollover:
  assumes "current_day s \<noteq> Some (trade_day (timestamp row))"
  shows "current_day (new_day row s) = Some (trade_day (timestamp row))"
    and "start_of_day_capital (new_day row s) = capital s"
    and "free_cash (new_day row s) = capital s"
    and "daily_summary (new_day row s) = daily_summary s @
          (case current_day s of None \<Rightarrow> []
           | Some d \<Rightarrow> [\<lparr>Date = d, Start_of_Day_Capital = start_of_day_capital s,
                         End_of_Day_Capital = capital s\<rparr>])"
  using assms by (simp_all add: new_day_def Let_def split: option.splits)

section \<open>Missing charge rates\<close>

text \<open>
  C7, as stated, fails. With an empty charges table a run whose only bar has a buy signal
  that cannot be afforded completes: it returns the missed signal "Insufficient Funds" and
  no error.
\<close>

theorem no_fail_fast_counterexample:
  "\<not> has_rates (CHARGES tc_no_charges) ''BUY''
   \<and> \<not> has_rates (CHARGES tc_no_charges) ''SELL''
   \<and> map_sum id (map Missed_Reason \<circ> missed_signals_df)
         (simulate_trades [poor_bar] 100 tc_no_charges) = Inr [''Insufficient Funds'']
   \<and> map_sum id trades_df (simulate_trades [poor_bar] 100 tc_no_charges) = Inr []"
  by (simp add: engine_eval input_eval time_eval charges_eval has_rates_def required_keys_def)

lemma run_bars_append:
  "run_bars tc s (xs @ ys) = bind_err (run_bars tc s xs) (\<lambda>s'. run_bars tc s' ys)"
proof (induction xs arbitrary: s)
  case Nil
  show ?case by simp
next
  case (Cons x xs)
  show ?case
  proof (cases "process_bar tc x s")
    case (Inl e)
    then show ?thesis by simp
  next
    case (Inr s1)
    with Cons.IH[of s1] show ?thesis by simp
  qed
qed

lemma process_bar_quiet:
  assumes "\<not> Buy_Signal row" and "long_positions s = []"
  shows "process_bar tc row s = Inr (new_day row s)"
  using assms
  by (simp add: process_bar_def square_off_empty Let_def buy_logic_no_signal
        sell_logic_empty new_day_fields)

lemma run_bars_quiet:
  assumes "\<forall>row \<in> set rows. \<not> Buy_Signal row"
    and "long_positions s = []"
  shows "\<exists>s'. run_bars tc s rows = Inr s' \<and> trades s' = trades s \<and> long_positions s' = []"
  using assms
proof (induction rows arbitrary: s)
  case Nil
  then show ?case by simp
next
  case (Cons row rows)
  from Cons.prems have p: "process_bar tc row s = Inr (new_day row s)"
    by (simp add: process_bar_quiet)
  have "long_positions (new_day row s) = []"
    using Cons.prems(2) by (simp add: new_day_fields)
  from Cons.IH[OF _ this] Cons.prems(1) p show ?case
    by (simp add: new_day_fields)
qed

lemma floor_quotient_pos:
  fixes a b :: real
  assumes "0 < b" and "b \<le> a"
  shows "0 < \<lfloor>a / b\<rfloor>"
proof -
  from assms have "1 \<le> a / b" by (simp add: field_simps)
  then have "1 \<le> \<lfloor>a / b\<rfloor>" by (simp add: le_floor_iff)
  then show ?thesis by simp
qed

lemma floor_quotient_nonpos:
  fixes a b :: real
  assumes "b < 0" and "0 \<le> a"
  shows "\<lfloor>a / b\<rfloor> \<le> 0"
proof -
  from assms have "a / b \<le> 0" by (simp add: divide_nonneg_neg)
  then show ?thesis by (simp add: floor_le_iff)
qed

lemma buy_logic_entry:
  assumes "Buy_Signal row" and "0 < close row"
    and "close row \<le> free_cash s * trade_allocation tc * leverage tc"
    and "calculate_transaction_charges (close row)
           \<lfloor>free_cash s * trade_allocation tc * leverage tc / close row\<rfloor> ''BUY'' (CHARGES tc)
         = r"
  shows "buy_logic tc row s = bind_err r (\<lambda>d.
      Inr (s\<lparr>total_cost := total_cost s
                 + (of_int \<lfloor>free_cash s * trade_allocation tc * leverage tc / close row\<rfloor>
                      * close row + total_charges d),
             free_cash := free_cash s - free_cash s * trade_allocation tc,
             daily_margin_used := daily_margin_used s + free_cash s * trade_allocation tc,
             long_positions := long_positions s @
               [\<lparr>shares = \<lfloor>free_cash s * trade_allocation tc * leverage tc / close row\<rfloor>,
                 price = close row, buy_charges = total_charges d,
                 margin_used = free_cash s * trade_allocation tc,
                 target_price = close row * (1 + target_profit_percentage tc / 100),
                 trailing_stop_loss = close row - ATR row * atr_multiplier tc\<rparr>],
             trades := trades s @
               [\<lparr>Time = timestamp row, Type = ''Buy'', Price = close row,
                 Shares = \<lfloor>free_cash s * trade_allocation tc * leverage tc / close row\<rfloor>,
                 Profit_Loss = 0,
                 Charges = total_charges d, Brokerage = brokerage d,
                 STT = stt d, Transaction_Charge = transaction_charge d,
                 SEBI_Charge = sebi_charge d, GST = gst d,
                 Stamp_Duty = stamp_duty d, Reason = ''Buy Signal''\<rparr>]\<rparr>))"
  using assms floor_quotient_pos[OF assms(2,3)]
  by (simp add: buy_logic_def Let_def)

text \<open>
  C7, amended. A rate missing for a side makes every charge computation of that side
  raise KeyError. Nothing is checked before the bars are processed: a run without buy
  signals completes whatever the table holds, and a run raises KeyError at the first bar
  that computes a charge with a missing rate, here a bar with an affordable buy signal
  before the no-new-buys deadline, after the bars before it have been processed.
\<close>

theorem missing_rate_raises_at_first_charge:
  "(\<not> has_rates cc side \<longrightarrow> calculate_transaction_charges p q side cc = Inl KeyError)
   \<and> ((\<forall>row \<in> set rows. \<not> Buy_Signal row) \<longrightarrow>
        (\<exists>s. run_bars tc (init_state initial_capital) rows = Inr s \<and> trades s = []))
   \<and> (\<not> has_rates (CHARGES tc) ''BUY'' \<and> run_bars tc s0 rows = Inr s
        \<and> Buy_Signal row \<and> timestamp row < no_new_buys_time (timestamp row)
        \<and> 0 < close row
        \<and> close row \<le> free_cash (new_day row s) * trade_allocation tc * leverage tc
        \<longrightarrow> run_bars tc s0 (rows @ row # rest) = Inl KeyError)"
proof (intro conjI impI)
  assume "\<not> has_rates cc side"
  then show "calculate_transaction_charges p q side cc = Inl KeyError"
    by (rule not_has_rates_calc)
next
  assume "\<forall>row \<in> set rows. \<not> Buy_Signal row"
  from run_bars_quiet[OF this, of "init_state initial_capital" tc]
  show "\<exists>s. run_bars tc (init_state initial_capital) rows = Inr s \<and> trades s = []"
    by (auto simp: init_state_def)
next
  assume a: "\<not> has_rates (CHARGES tc) ''BUY'' \<and> run_bars tc s0 rows = Inr s
        \<and> Buy_Signal row \<and> timestamp row < no_new_buys_time (timestamp row)
        \<and> 0 < close row
        \<and> close row \<le> free_cash (new_day row s) * trade_allocation tc * leverage tc"
  then have sq: "square_off (CHARGES tc) row s = Inr s"
    by (simp add: square_off_early square_off_before_no_new_buys)
  from a have "buy_logic tc row (new_day row s) = Inl KeyError"
    by (simp add: buy_logic_entry[OF _ _ _ refl] not_has_rates_calc)
  with a sq have "process_bar tc row s = Inl KeyError"
    by (simp add: process_bar_def Let_def)
  with a show "run_bars tc s0 (rows @ row # rest) = Inl KeyError"
    by (simp add: run_bars_append)
qed

theorem missing_rate_raises_at_first_charge_witness:
  "\<not> has_rates (CHARGES tc_no_charges) ''BUY''
   \<and> calculate_transaction_charges 100 1 ''BUY'' (CHARGES tc_no_charges) = Inl KeyError
   \<and> list_all (\<lambda>row. \<not> Buy_Signal row) [quiet_0915]
   \<and> map_sum id trades (run_bars tc_no_charges (init_state 100) [quiet_0915]) = Inr []
   \<and> run_bars tc_no_charges (init_state 100) [quiet_0915]
       = Inr (new_day quiet_0915 (init_state 100))
   \<and> Buy_Signal buy_0920 \<and> timestamp buy_0920 < no_new_buys_time (timestamp buy_0920)
   \<and> 0 < close buy_0920
   \<and> close buy_0920 \<le> free_cash (new_day buy_0920 (new_day quiet_0915 (init_state 100)))
        * trade_allocation tc_no_charges * leverage tc_no_charges
   \<and> run_bars tc_no_charges (init_state 100) ([quiet_0915] @ buy_0920 # [rise_1000])
       = Inl KeyError"
  using missing_rate_raises_at_first_charge [where cc = "CHARGES tc_no_charges"
      and side = "''BUY''" and p = 100 and q = 1 and rows = "[quiet_0915]"
      and tc = tc_no_charges and initial_capital = 100 and ?s0.0 = "init_state 100"
      and s = "new_day quiet_0915 (init_state 100)" and row = buy_0920
      and rest = "[rise_1000]"]
  by (simp add: engine_eval input_eval time_eval charges_eval has_rates_def required_keys_def)

section \<open>Unvalidated prices and ATR values\<close>

lemmas engine_x_eval = init_state_x_def process_bar_x_def square_off_x_def
  square_off_position_x_def new_day_x_def buy_logic_x_def sell_logic_x_def sell_position_x_def
  exit_reason_x_def calculate_transaction_charges_x_def fsub_def fge_def flt_def py_min_def
  rate_def Let_def

lemmas input_x_eval = buy_0920_x_def neg_atr_bar_x_def nan_atr_bar_x_def nan_close_bar_x_def
  zero_close_bar_x_def neg_inf_close_bar_x_def late_zero_close_x_def sell_neg_close_x_def
  sell_nan_close_x_def quiet_nan_close_x_def pos_x_def tc_plain_def zero_charges_def
  zero_rates_def

text \<open>
  C8, as stated, fails. No bar is rejected on account of its close price or its ATR.
  A bar with ATR -2 and a buy signal at close 100 opens a position with trailing stop
  102, logs nothing, and the sell logic of the same bar sells the position with
  "Trailing Stop-Loss Triggered"; with ATR NaN the position is opened with trailing stop
  NaN. A bar with close 0 and a buy signal raises ZeroDivisionError, which ends the run
  before the next bar. An open position is sold on a sell signal at close -5, and at
  close NaN, with charges NaN and capital NaN afterwards; nothing is logged.
\<close>

theorem unvalidated_bar_counterexample:
  "ATR_x neg_atr_bar_x = Fin (- 2)
   \<and> map_sum id (map trailing_stop_loss_x \<circ> long_positions_x)
         (buy_logic_x tc_plain neg_atr_bar_x (new_day_x neg_atr_bar_x (init_state_x 100)))
       = Inr [Fin 102]
   \<and> map_sum id (map Reason_x \<circ> trades_x)
         (process_bar_x tc_plain neg_atr_bar_x (init_state_x 100))
       = Inr [''Buy Signal'', ''Trailing Stop-Loss Triggered'']
   \<and> map_sum id missed_signals_x (process_bar_x tc_plain neg_atr_bar_x (init_state_x 100))
       = Inr []
   \<and> map_sum id (map trailing_stop_loss_x \<circ> long_positions_x)
         (process_bar_x tc_plain nan_atr_bar_x (init_state_x 100)) = Inr [NaN]
   \<and> map_sum id missed_signals_x (process_bar_x tc_plain nan_atr_bar_x (init_state_x 100))
       = Inr []
   \<and> run_bars_x tc_plain (init_state_x 100) [zero_close_bar_x, buy_0920_x]
       = Inl ZeroDivisionError
   \<and> map_sum id (map Price_x \<circ> trades_x)
         (run_bars_x tc_plain (init_state_x 100) [buy_0920_x, sell_neg_close_x])
       = Inr [Fin 100, Fin (- 5)]
   \<and> map_sum id (map Reason_x \<circ> trades_x)
         (run_bars_x tc_plain (init_state_x 100) [buy_0920_x, sell_neg_close_x])
       = Inr [''Buy Signal'', ''Sell Signal Triggered'']
   \<and> map_sum id missed_signals_x
         (run_bars_x tc_plain (init_state_x 100) [buy_0920_x, sell_neg_close_x]) = Inr []
   \<and> map_sum id (map Charges_x \<circ> trades_x)
         (run_bars_x tc_plain (init_state_x 100) [buy_0920_x, sell_nan_close_x])
       = Inr [Fin 0, NaN]
   \<and> map_sum id capital_x
         (run_bars_x tc_plain (init_state_x 100) [buy_0920_x, sell_nan_close_x]) = Inr NaN
   \<and> map_sum id missed_signals_x
         (run_bars_x tc_plain (init_state_x 100) [buy_0920_x, sell_nan_close_x]) = Inr []"
  by (simp add: engine_x_eval input_x_eval time_eval)


lemma has_rates_calc_x:
  assumes "has_rates cc side"
  shows "\<exists>d. calculate_transaction_charges_x p q side cc = Inr d"
proof -
  from assms obtain b s t e g where
    r: "rate cc side ''BROKERAGE'' = Inr b" "rate cc side ''STT'' = Inr s"
      "rate cc side ''TRANSACTION'' = Inr t" "rate cc side ''SEBI'' = Inr e"
      "rate cc side ''GST'' = Inr g"
    by (auto simp: has_rates_def required_keys_def split: sum.splits)
  show ?thesis
  proof (cases "side = ''BUY''")
    case True
    with assms obtain d where "rate cc ''BUY'' ''STAMP'' = Inr d"
      by (auto simp: has_rates_def required_keys_def split: sum.splits)
    with r True show ?thesis
      by (simp add: calculate_transaction_charges_x_def Let_def)
  next
    case False
    with r show ?thesis
      by (simp add: calculate_transaction_charges_x_def Let_def)
  qed
qed

lemma process_bar_x_early:
  assumes "timestamp_x row < no_new_buys_time (timestamp_x row)"
  shows "process_bar_x tc row s
         = bind_err (buy_logic_x tc row (new_day_x row s)) (sell_logic_x (CHARGES tc) row)"
  using assms square_off_before_no_new_buys[of "timestamp_x row"]
  by (simp add: process_bar_x_def square_off_x_def Let_def)

lemma buy_logic_x_entry:
  assumes "Buy_Signal_x row" and "free_cash_x s = Fin f" and "close_x row = Fin c"
    and "0 < c" and "c \<le> f * trade_allocation tc * leverage tc"
    and "calculate_transaction_charges_x (Fin c)
           \<lfloor>f * trade_allocation tc * leverage tc / c\<rfloor> ''BUY'' (CHARGES tc) = Inr d"
  shows "\<exists>s3. buy_logic_x tc row s = Inr s3
         \<and> long_positions_x s3 = long_positions_x s @
               [\<lparr>shares_x = \<lfloor>f * trade_allocation tc * leverage tc / c\<rfloor>,
                 price_x = Fin c, buy_charges_x = total_charges_x d,
                 margin_used_x = Fin (f * trade_allocation tc),
                 target_price_x = Fin (c * (1 + target_profit_percentage tc / 100)),
                 trailing_stop_loss_x =
                   fsub (Fin c) (fmul (ATR_x row) (Fin (atr_multiplier tc)))\<rparr>]
         \<and> free_cash_x s3 = Fin (f - f * trade_allocation tc)
         \<and> missed_signals_x s3 = missed_signals_x s"
proof -
  from assms(4,5) have "0 < \<lfloor>f * trade_allocation tc * leverage tc / c\<rfloor>"
    by (rule floor_quotient_pos)
  with assms show ?thesis
    by (simp add: buy_logic_x_def Let_def fge_def fsub_def)
qed

lemma buy_logic_x_refused:
  assumes "Buy_Signal_x row" and "free_cash_x s = Fin f"
    and "close_x row = NaN \<or> close_x row = PInf
         \<or> (\<exists>c. close_x row = Fin c \<and> f * trade_allocation tc * leverage tc < c)"
  shows "buy_logic_x tc row s
         = Inr (s\<lparr>missed_signals_x := missed_signals_x s @
                  [\<lparr>Missed_Time_x = timestamp_x row, Missed_Price_x = close_x row,
                    Missed_Reason_x = ''Insufficient Funds''\<rparr>]\<rparr>)"
  using assms by (auto simp: buy_logic_x_def Let_def fge_def)

lemma buy_logic_x_zero:
  assumes "Buy_Signal_x row" and "free_cash_x s = Fin f" and "close_x row = Fin 0"
    and "0 \<le> f * trade_allocation tc * leverage tc"
  shows "buy_logic_x tc row s = Inl ZeroDivisionError"
  using assms by (simp add: buy_logic_x_def Let_def fge_def)

lemma buy_logic_x_negative:
  assumes "Buy_Signal_x row" and "free_cash_x s = Fin f"
    and "close_x row = NInf
         \<or> (\<exists>c. close_x row = Fin c \<and> c < 0 \<and> 0 \<le> f * trade_allocation tc * leverage tc)"
  shows "buy_logic_x tc row s = Inr s"
proof -
  { fix c :: real assume "c < 0" "0 \<le> f * trade_allocation tc * leverage tc"
    then have "\<not> 0 < \<lfloor>f * trade_allocation tc * leverage tc / c\<rfloor>"
      using floor_quotient_nonpos[of c "f * trade_allocation tc * leverage tc"] by simp }
  with assms show ?thesis
    by (auto simp: buy_logic_x_def Let_def fge_def)
qed

lemma square_off_position_x_missed:
  "square_off_position_x cc row s pos = Inr s' \<Longrightarrow> missed_signals_x s' = missed_signals_x s"
  by (auto simp: square_off_position_x_def Let_def bind_err_Inr_iff)

lemma square_off_loop_x_missed:
  "square_off_loop_x cc row s ps = Inr s' \<Longrightarrow> missed_signals_x s' = missed_signals_x s"
proof (induction ps arbitrary: s)
  case Nil
  then show ?case by simp
next
  case (Cons pos ps)
  then show ?case
    by (auto simp: bind_err_Inr_iff dest: square_off_position_x_missed)
qed

lemma square_off_x_missed:
  "square_off_x cc row s = Inr s' \<Longrightarrow> missed_signals_x s' = missed_signals_x s"
  by (auto simp: square_off_x_def dest: square_off_loop_x_missed split: if_splits)

lemma sell_position_x_missed:
  "sell_position_x cc row s pos = Inr s' \<Longrightarrow> missed_signals_x s' = missed_signals_x s"
  by (auto simp: sell_position_x_def Let_def bind_err_Inr_iff split: option.splits)

lemma sell_loop_x_missed:
  "sell_loop_x cc row s ps = Inr s' \<Longrightarrow> missed_signals_x s' = missed_signals_x s"
proof (induction ps arbitrary: s)
  case Nil
  then show ?case by simp
next
  case (Cons pos ps)
  then show ?case
    by (auto simp: bind_err_Inr_iff dest: sell_position_x_missed)
qed

lemma sell_logic_x_missed:
  "sell_logic_x cc row s = Inr s' \<Longrightarrow> missed_signals_x s' = missed_signals_x s"
  by (auto simp: sell_logic_x_def dest: sell_loop_x_missed split: if_splits)

lemma new_day_x_missed: "missed_signals_x (new_day_x row s) = missed_signals_x s"
  by (simp add: new_day_x_def Let_def split: option.splits)

lemma process_bar_x_quiet_missed:
  assumes "\<not> Buy_Signal_x row" and "process_bar_x tc row s = Inr s'"
  shows "missed_signals_x s' = missed_signals_x s"
proof -
  from assms obtain s1 where s1: "square_off_x (CHARGES tc) row s = Inr s1"
    and s': "sell_logic_x (CHARGES tc) row (new_day_x row s1) = Inr s'"
    by (auto simp: process_bar_x_def Let_def bind_err_Inr_iff buy_logic_x_def)
  from sell_logic_x_missed[OF s'] square_off_x_missed[OF s1] show ?thesis
    by (simp add: new_day_x_missed)
qed

lemma sell_position_x_sold:
  assumes "exit_reason_x row pos = Some r"
    and "calculate_transaction_charges_x (close_x row) (shares_x pos) ''SELL'' cc = Inr d"
  shows "\<exists>s'. sell_position_x cc row s pos = Inr s'
          \<and> trades_x s' = trades_x s @
              [\<lparr>Time_x = timestamp_x row, Type_x = ''Sell'', Price_x = close_x row,
                Shares_x = shares_x pos,
                Profit_Loss_x =
                  fsub (fsub (fmul (Fin (of_int (shares_x pos))) (close_x row))
                          (total_charges_x d))
                    (fadd (fmul (Fin (of_int (shares_x pos))) (price_x pos))
                       (buy_charges_x pos)),
                Charges_x = total_charges_x d, Brokerage_x = brokerage_x d,
                STT_x = stt_x d, Transaction_Charge_x = transaction_charge_x d,
                SEBI_Charge_x = sebi_charge_x d, GST_x = gst_x d,
                Stamp_Duty_x = stamp_duty_x d, Reason_x = r\<rparr>]
          \<and> long_positions_x s' = remove1 pos (long_positions_x s)"
  using assms by (simp add: sell_position_x_def Let_def)

lemma square_off_position_x_sold:
  assumes "calculate_transaction_charges_x (close_x row) (shares_x pos) ''SELL'' cc = Inr d"
  shows "\<exists>s'. square_off_position_x cc row s pos = Inr s'
          \<and> trades_x s' = trades_x s @
              [\<lparr>Time_x = timestamp_x row, Type_x = ''Square Off'', Price_x = close_x row,
                Shares_x = shares_x pos,
                Profit_Loss_x =
                  fsub (fsub (fmul (Fin (of_int (shares_x pos))) (close_x row))
                          (total_charges_x d))
                    (fadd (fmul (Fin (of_int (shares_x pos))) (price_x pos))
                       (buy_charges_x pos)),
                Charges_x = total_charges_x d, Brokerage_x = brokerage_x d,
                STT_x = stt_x d, Transaction_Charge_x = transaction_charge_x d,
                SEBI_Charge_x = sebi_charge_x d, GST_x = gst_x d,
                Stamp_Duty_x = stamp_duty_x d,
                Reason_x = ''Square Off Before Market Close''\<rparr>]
          \<and> long_positions_x s' = remove1 pos (long_positions_x s)"
  using assms by (simp add: square_off_position_x_def Let_def)

lemma exit_reason_x_nan:
  assumes "close_x row = NaN" and "\<not> Sell_Signal_x row"
    and "timestamp_x row < square_off_time (timestamp_x row)"
  shows "exit_reason_x row pos = None"
  using assms by (cases "target_price_x pos"; cases "trailing_stop_loss_x pos")
    (simp_all add: exit_reason_x_def fge_def)


lemma process_bar_x_entry:
  assumes "timestamp_x row < no_new_buys_time (timestamp_x row)" and "Buy_Signal_x row"
    and "free_cash_x (new_day_x row s) = Fin f"
    and "close_x row = Fin c" and "0 < c" and "c \<le> f * trade_allocation tc * leverage tc"
    and "has_rates (CHARGES tc) ''BUY''"
  shows "\<exists>d s3. calculate_transaction_charges_x (Fin c)
                  \<lfloor>f * trade_allocation tc * leverage tc / c\<rfloor> ''BUY'' (CHARGES tc) = Inr d
         \<and> buy_logic_x tc row (new_day_x row s) = Inr s3
         \<and> long_positions_x s3 = long_positions_x (new_day_x row s) @
               [\<lparr>shares_x = \<lfloor>f * trade_allocation tc * leverage tc / c\<rfloor>,
                 price_x = Fin c, buy_charges_x = total_charges_x d,
                 margin_used_x = Fin (f * trade_allocation tc),
                 target_price_x = Fin (c * (1 + target_profit_percentage tc / 100)),
                 trailing_stop_loss_x =
                   fsub (Fin c) (fmul (ATR_x row) (Fin (atr_multiplier tc)))\<rparr>]
         \<and> missed_signals_x s3 = missed_signals_x s
         \<and> process_bar_x tc row s = sell_logic_x (CHARGES tc) row s3"
proof -
  from has_rates_calc_x[OF assms(7)] obtain d where
    d: "calculate_transaction_charges_x (Fin c)
          \<lfloor>f * trade_allocation tc * leverage tc / c\<rfloor> ''BUY'' (CHARGES tc) = Inr d"
    by blast
  from buy_logic_x_entry[OF assms(2,3,4,5,6) d] obtain s3 where
    s3: "buy_logic_x tc row (new_day_x row s) = Inr s3"
      "long_positions_x s3 = long_positions_x (new_day_x row s) @
               [\<lparr>shares_x = \<lfloor>f * trade_allocation tc * leverage tc / c\<rfloor>,
                 price_x = Fin c, buy_charges_x = total_charges_x d,
                 margin_used_x = Fin (f * trade_allocation tc),
                 target_price_x = Fin (c * (1 + target_profit_percentage tc / 100)),
                 trailing_stop_loss_x =
                   fsub (Fin c) (fmul (ATR_x row) (Fin (atr_multiplier tc)))\<rparr>]"
      "missed_signals_x s3 = missed_signals_x (new_day_x row s)"
    by blast
  have "process_bar_x tc row s = sell_logic_x (CHARGES tc) row s3"
    by (simp add: process_bar_x_early[OF assms(1)] s3(1))
  with d s3 show ?thesis
    by (simp add: new_day_x_missed)
qed

lemma process_bar_x_refused:
  assumes "timestamp_x row < no_new_buys_time (timestamp_x row)" and "Buy_Signal_x row"
    and "free_cash_x (new_day_x row s) = Fin f"
    and "close_x row = NaN \<or> close_x row = PInf
         \<or> (\<exists>c. close_x row = Fin c \<and> f * trade_allocation tc * leverage tc < c)"
  shows "process_bar_x tc row s
         = sell_logic_x (CHARGES tc) row
             ((new_day_x row s)\<lparr>missed_signals_x := missed_signals_x s @
                [\<lparr>Missed_Time_x = timestamp_x row, Missed_Price_x = close_x row,
                  Missed_Reason_x = ''Insufficient Funds''\<rparr>]\<rparr>)"
  by (simp add: process_bar_x_early[OF assms(1)] buy_logic_x_refused[OF assms(2,3,4)]
        new_day_x_missed)

lemma process_bar_x_zero:
  assumes "timestamp_x row < no_new_buys_time (timestamp_x row)" and "Buy_Signal_x row"
    and "free_cash_x (new_day_x row s) = Fin f"
    and "close_x row = Fin 0" and "0 \<le> f * trade_allocation tc * leverage tc"
  shows "process_bar_x tc row s = Inl ZeroDivisionError"
  by (simp add: process_bar_x_early[OF assms(1)] buy_logic_x_zero[OF assms(2,3,4,5)])

lemma process_bar_x_negative:
  assumes "timestamp_x row < no_new_buys_time (timestamp_x row)" and "Buy_Signal_x row"
    and "free_cash_x (new_day_x row s) = Fin f"
    and "close_x row = NInf
         \<or> (\<exists>c. close_x row = Fin c \<and> c < 0 \<and> 0 \<le> f * trade_allocation tc * leverage tc)"
  shows "process_bar_x tc row s = sell_logic_x (CHARGES tc) row (new_day_x row s)"
  by (simp add: process_bar_x_early[OF assms(1)] buy_logic_x_negative[OF assms(2,3,4)])

lemma process_bar_x_late:
  assumes "no_new_buys_time (timestamp_x row) \<le> timestamp_x row" and "Buy_Signal_x row"
  shows "process_bar_x tc row s
         = bind_err (square_off_x (CHARGES tc) row s)
             (\<lambda>s1. Inr ((new_day_x row s1)\<lparr>missed_signals_x := missed_signals_x s1 @
                [\<lparr>Missed_Time_x = timestamp_x row, Missed_Price_x = close_x row,
                  Missed_Reason_x = ''Buy restricted near market close''\<rparr>]\<rparr>))"
  using assms by (simp add: process_bar_x_def Let_def new_day_x_missed)

text \<open>
  C8, amended. The loop validates neither the close price nor the ATR of a bar; what a
  bar does follows from the comparisons and the arithmetic alone.

  Entry, on a bar with a buy signal before the no-new-buys deadline of its day, with
  finite free cash \<open>f\<close> after the new-day block and buying power
  \<open>L = f * trade_allocation * leverage\<close>:
  a finite close \<open>c\<close> with \<open>0 < c \<le> L\<close> and every BUY rate present makes the entry
  whatever the ATR is, with target \<open>c * (1 + target_profit_percentage / 100)\<close> and
  trailing stop \<open>c - ATR * atr_multiplier\<close>, logs nothing, and the sell logic runs on the
  state with the new position;
  a close that is NaN, plus infinity, or finite above \<open>L\<close> makes no entry, logs the missed
  signal "Insufficient Funds", and the sell logic runs;
  a close of zero with \<open>0 \<le> L\<close> raises ZeroDivisionError;
  a close that is minus infinity, or negative with \<open>0 \<le> L\<close>, makes no entry and logs
  nothing, and the sell logic runs.

  At or after the deadline a bar with a buy signal makes no entry whatever its values:
  after the square-off block and the new-day block it logs
  "Buy restricted near market close", and the sell logic is skipped.

  Exit, with every SELL rate present: the charges are computed at the bar's close
  whatever that value is; a position with an exit reason is sold at that close with these
  charges, and so is a position that is squared off. A NaN close without a sell signal
  before 15:00 gives no exit reason. A bar without a buy signal logs nothing.
\<close>

theorem bar_values_not_validated:
  "(timestamp_x row < no_new_buys_time (timestamp_x row) \<and> Buy_Signal_x row
      \<and> free_cash_x (new_day_x row s) = Fin f \<longrightarrow>
      (\<forall>c. close_x row = Fin c \<and> 0 < c \<and> c \<le> f * trade_allocation tc * leverage tc
            \<and> has_rates (CHARGES tc) ''BUY'' \<longrightarrow>
         (\<exists>d s3. calculate_transaction_charges_x (Fin c)
                    \<lfloor>f * trade_allocation tc * leverage tc / c\<rfloor> ''BUY'' (CHARGES tc)
                  = Inr d
            \<and> buy_logic_x tc row (new_day_x row s) = Inr s3
            \<and> long_positions_x s3 = long_positions_x (new_day_x row s) @
                 [\<lparr>shares_x = \<lfloor>f * trade_allocation tc * leverage tc / c\<rfloor>,
                   price_x = Fin c, buy_charges_x = total_charges_x d,
                   margin_used_x = Fin (f * trade_allocation tc),
                   target_price_x = Fin (c * (1 + target_profit_percentage tc / 100)),
                   trailing_stop_loss_x =
                     fsub (Fin c) (fmul (ATR_x row) (Fin (atr_multiplier tc)))\<rparr>]
            \<and> missed_signals_x s3 = missed_signals_x s
            \<and> process_bar_x tc row s = sell_logic_x (CHARGES tc) row s3))
      \<and> (close_x row = NaN \<or> close_x row = PInf
           \<or> (\<exists>c. close_x row = Fin c \<and> f * trade_allocation tc * leverage tc < c) \<longrightarrow>
         process_bar_x tc row s
           = sell_logic_x (CHARGES tc) row
               ((new_day_x row s)\<lparr>missed_signals_x := missed_signals_x s @
                  [\<lparr>Missed_Time_x = timestamp_x row, Missed_Price_x = close_x row,
                    Missed_Reason_x = ''Insufficient Funds''\<rparr>]\<rparr>))
      \<and> (close_x row = Fin 0 \<and> 0 \<le> f * trade_allocation tc * leverage tc \<longrightarrow>
         process_bar_x tc row s = Inl ZeroDivisionError)
      \<and> (close_x row = NInf
           \<or> (\<exists>c. close_x row = Fin c \<and> c < 0
                 \<and> 0 \<le> f * trade_allocation tc * leverage tc) \<longrightarrow>
         process_bar_x tc row s = sell_logic_x (CHARGES tc) row (new_day_x row s)))
   \<and> (no_new_buys_time (timestamp_x row) \<le> timestamp_x row \<and> Buy_Signal_x row \<longrightarrow>
        process_bar_x tc row s
          = bind_err (square_off_x (CHARGES tc) row s)
              (\<lambda>s1. Inr ((new_day_x row s1)\<lparr>missed_signals_x := missed_signals_x s1 @
                 [\<lparr>Missed_Time_x = timestamp_x row, Missed_Price_x = close_x row,
                   Missed_Reason_x = ''Buy restricted near market close''\<rparr>]\<rparr>)))
   \<and> (has_rates (CHARGES tc) ''SELL'' \<longrightarrow>
        (\<exists>d. calculate_transaction_charges_x (close_x row) (shares_x pos) ''SELL'' (CHARGES tc)
               = Inr d
           \<and> (\<forall>r. exit_reason_x row pos = Some r \<longrightarrow>
                (\<exists>s'. sell_position_x (CHARGES tc) row s pos = Inr s'
                   \<and> trades_x s' = trades_x s @
                       [\<lparr>Time_x = timestamp_x row, Type_x = ''Sell'', Price_x = close_x row,
                         Shares_x = shares_x pos,
                         Profit_Loss_x =
                           fsub (fsub (fmul (Fin (of_int (shares_x pos))) (close_x row))
                                   (total_charges_x d))
                             (fadd (fmul (Fin (of_int (shares_x pos))) (price_x pos))
                                (buy_charges_x pos)),
                         Charges_x = total_charges_x d, Brokerage_x = brokerage_x d,
                         STT_x = stt_x d, Transaction_Charge_x = transaction_charge_x d,
                         SEBI_Charge_x = sebi_charge_x d, GST_x = gst_x d,
                         Stamp_Duty_x = stamp_duty_x d, Reason_x = r\<rparr>]
                   \<and> long_positions_x s' = remove1 pos (long_positions_x s)))
           \<and> (\<exists>s'. square_off_position_x (CHARGES tc) row s pos = Inr s'
                 \<and> trades_x s' = trades_x s @
                     [\<lparr>Time_x = timestamp_x row, Type_x = ''Square Off'',
                       Price_x = close_x row, Shares_x = shares_x pos,
                       Profit_Loss_x =
                         fsub (fsub (fmul (Fin (of_int (shares_x pos))) (close_x row))
                                 (total_charges_x d))
                           (fadd (fmul (Fin (of_int (shares_x pos))) (price_x pos))
                              (buy_charges_x pos)),
                       Charges_x = total_charges_x d, Brokerage_x = brokerage_x d,
                       STT_x = stt_x d, Transaction_Charge_x = transaction_charge_x d,
                       SEBI_Charge_x = sebi_charge_x d, GST_x = gst_x d,
                       Stamp_Duty_x = stamp_duty_x d,
                       Reason_x = ''Square Off Before Market Close''\<rparr>]
                 \<and> long_positions_x s' = remove1 pos (long_positions_x s))))
   \<and> (close_x row = NaN \<and> \<not> Sell_Signal_x row
        \<and> timestamp_x row < square_off_time (timestamp_x row) \<longrightarrow>
        exit_reason_x row pos = None)
   \<and> (\<forall>s'. \<not> Buy_Signal_x row \<and> process_bar_x tc row s = Inr s' \<longrightarrow>
        missed_signals_x s' = missed_signals_x s)"
proof (intro conjI impI allI)
  fix c
  assume h: "timestamp_x row < no_new_buys_time (timestamp_x row) \<and> Buy_Signal_x row
      \<and> free_cash_x (new_day_x row s) = Fin f"
    and a: "close_x row = Fin c \<and> 0 < c \<and> c \<le> f * trade_allocation tc * leverage tc
            \<and> has_rates (CHARGES tc) ''BUY''"
  from h a show "\<exists>d s3. calculate_transaction_charges_x (Fin c)
                    \<lfloor>f * trade_allocation tc * leverage tc / c\<rfloor> ''BUY'' (CHARGES tc)
                  = Inr d
            \<and> buy_logic_x tc row (new_day_x row s) = Inr s3
            \<and> long_positions_x s3 = long_positions_x (new_day_x row s) @
                 [\<lparr>shares_x = \<lfloor>f * trade_allocation tc * leverage tc / c\<rfloor>,
                   price_x = Fin c, buy_charges_x = total_charges_x d,
                   margin_used_x = Fin (f * trade_allocation tc),
                   target_price_x = Fin (c * (1 + target_profit_percentage tc / 100)),
                   trailing_stop_loss_x =
                     fsub (Fin c) (fmul (ATR_x row) (Fin (atr_multiplier tc)))\<rparr>]
            \<and> missed_signals_x s3 = missed_signals_x s
            \<and> process_bar_x tc row s = sell_logic_x (CHARGES tc) row s3"
    by (intro process_bar_x_entry) simp_all
next
  assume h: "timestamp_x row < no_new_buys_time (timestamp_x row) \<and> Buy_Signal_x row
      \<and> free_cash_x (new_day_x row s) = Fin f"
    and a: "close_x row = NaN \<or> close_x row = PInf
           \<or> (\<exists>c. close_x row = Fin c \<and> f * trade_allocation tc * leverage tc < c)"
  from h have "timestamp_x row < no_new_buys_time (timestamp_x row)" "Buy_Signal_x row"
    "free_cash_x (new_day_x row s) = Fin f" by simp_all
  from process_bar_x_refused[OF this a]
  show "process_bar_x tc row s
           = sell_logic_x (CHARGES tc) row
               ((new_day_x row s)\<lparr>missed_signals_x := missed_signals_x s @
                  [\<lparr>Missed_Time_x = timestamp_x row, Missed_Price_x = close_x row,
                    Missed_Reason_x = ''Insufficient Funds''\<rparr>]\<rparr>)" .
next
  assume h: "timestamp_x row < no_new_buys_time (timestamp_x row) \<and> Buy_Signal_x row
      \<and> free_cash_x (new_day_x row s) = Fin f"
    and a: "close_x row = Fin 0 \<and> 0 \<le> f * trade_allocation tc * leverage tc"
  from h a show "process_bar_x tc row s = Inl ZeroDivisionError"
    by (intro process_bar_x_zero[where f = f]) simp_all
next
  assume h: "timestamp_x row < no_new_buys_time (timestamp_x row) \<and> Buy_Signal_x row
      \<and> free_cash_x (new_day_x row s) = Fin f"
    and a: "close_x row = NInf
           \<or> (\<exists>c. close_x row = Fin c \<and> c < 0
                 \<and> 0 \<le> f * trade_allocation tc * leverage tc)"
  from h have "timestamp_x row < no_new_buys_time (timestamp_x row)" "Buy_Signal_x row"
    "free_cash_x (new_day_x row s) = Fin f" by simp_all
  from process_bar_x_negative[OF this a]
  show "process_bar_x tc row s = sell_logic_x (CHARGES tc) row (new_day_x row s)" .
next
  assume "no_new_buys_time (timestamp_x row) \<le> timestamp_x row \<and> Buy_Signal_x row"
  then show "process_bar_x tc row s
          = bind_err (square_off_x (CHARGES tc) row s)
              (\<lambda>s1. Inr ((new_day_x row s1)\<lparr>missed_signals_x := missed_signals_x s1 @
                 [\<lparr>Missed_Time_x = timestamp_x row, Missed_Price_x = close_x row,
                   Missed_Reason_x = ''Buy restricted near market close''\<rparr>]\<rparr>))"
    by (intro process_bar_x_late) simp_all
next
  assume "has_rates (CHARGES tc) ''SELL''"
  from has_rates_calc_x[OF this] obtain d where
    d: "calculate_transaction_charges_x (close_x row) (shares_x pos) ''SELL'' (CHARGES tc)
        = Inr d"
    by blast
  show "\<exists>d. calculate_transaction_charges_x (close_x row) (shares_x pos) ''SELL'' (CHARGES tc)
               = Inr d
           \<and> (\<forall>r. exit_reason_x row pos = Some r \<longrightarrow>
                (\<exists>s'. sell_position_x (CHARGES tc) row s pos = Inr s'
                   \<and> trades_x s' = trades_x s @
                       [\<lparr>Time_x = timestamp_x row, Type_x = ''Sell'', Price_x = close_x row,
                         Shares_x = shares_x pos,
                         Profit_Loss_x =
                           fsub (fsub (fmul (Fin (of_int (shares_x pos))) (close_x row))
                                   (total_charges_x d))
                             (fadd (fmul (Fin (of_int (shares_x pos))) (price_x pos))
                                (buy_charges_x pos)),
                         Charges_x = total_charges_x d, Brokerage_x = brokerage_x d,
                         STT_x = stt_x d, Transaction_Charge_x = transaction_charge_x d,
                         SEBI_Charge_x = sebi_charge_x d, GST_x = gst_x d,
                         Stamp_Duty_x = stamp_duty_x d, Reason_x = r\<rparr>]
                   \<and> long_positions_x s' = remove1 pos (long_positions_x s)))
           \<and> (\<exists>s'. square_off_position_x (CHARGES tc) row s pos = Inr s'
                 \<and> trades_x s' = trades_x s @
                     [\<lparr>Time_x = timestamp_x row, Type_x = ''Square Off'',
                       Price_x = close_x row, Shares_x = shares_x pos,
                       Profit_Loss_x =
                         fsub (fsub (fmul (Fin (of_int (shares_x pos))) (close_x row))
                                 (total_charges_x d))
                           (fadd (fmul (Fin (of_int (shares_x pos))) (price_x pos))
                              (buy_charges_x pos)),
                       Charges_x = total_charges_x d, Brokerage_x = brokerage_x d,
                       STT_x = stt_x d, Transaction_Charge_x = transaction_charge_x d,
                       SEBI_Charge_x = sebi_charge_x d, GST_x = gst_x d,
                       Stamp_Duty_x = stamp_duty_x d,
                       Reason_x = ''Square Off Before Market Close''\<rparr>]
                 \<and> long_positions_x s' = remove1 pos (long_positions_x s))"
  proof (intro exI[of _ d] conjI allI impI)
    show "calculate_transaction_charges_x (close_x row) (shares_x pos) ''SELL'' (CHARGES tc)
        = Inr d" by (rule d)
  next
    fix r assume "exit_reason_x row pos = Some r"
    from sell_position_x_sold[OF this d]
    show "\<exists>s'. sell_position_x (CHARGES tc) row s pos = Inr s'
                   \<and> trades_x s' = trades_x s @
                       [\<lparr>Time_x = timestamp_x row, Type_x = ''Sell'', Price_x = close_x row,
                         Shares_x = shares_x pos,
                         Profit_Loss_x =
                           fsub (fsub (fmul (Fin (of_int (shares_x pos))) (close_x row))
                                   (total_charges_x d))
                             (fadd (fmul (Fin (of_int (shares_x pos))) (price_x pos))
                                (buy_charges_x pos)),
                         Charges_x = total_charges_x d, Brokerage_x = brokerage_x d,
                         STT_x = stt_x d, Transaction_Charge_x = transaction_charge_x d,
                         SEBI_Charge_x = sebi_charge_x d, GST_x = gst_x d,
                         Stamp_Duty_x = stamp_duty_x d, Reason_x = r\<rparr>]
                   \<and> long_positions_x s' = remove1 pos (long_positions_x s)" .
  next
    from square_off_position_x_sold[OF d]
    show "\<exists>s'. square_off_position_x (CHARGES tc) row s pos = Inr s'
                 \<and> trades_x s' = trades_x s @
                     [\<lparr>Time_x = timestamp_x row, Type_x = ''Square Off'',
                       Price_x = close_x row, Shares_x = shares_x pos,
                       Profit_Loss_x =
                         fsub (fsub (fmul (Fin (of_int (shares_x pos))) (close_x row))
                                 (total_charges_x d))
                           (fadd (fmul (Fin (of_int (shares_x pos))) (price_x pos))
                              (buy_charges_x pos)),
                       Charges_x = total_charges_x d, Brokerage_x = brokerage_x d,
                       STT_x = stt_x d, Transaction_Charge_x = transaction_charge_x d,
                       SEBI_Charge_x = sebi_charge_x d, GST_x = gst_x d,
                       Stamp_Duty_x = stamp_duty_x d,
                       Reason_x = ''Square Off Before Market Close''\<rparr>]
                 \<and> long_positions_x s' = remove1 pos (long_positions_x s)" .
  qed
next
  assume "close_x row = NaN \<and> \<not> Sell_Signal_x row
        \<and> timestamp_x row < square_off_time (timestamp_x row)"
  then show "exit_reason_x row pos = None"
    by (intro exit_reason_x_nan) simp_all
next
  fix s'
  assume "\<not> Buy_Signal_x row \<and> process_bar_x tc row s = Inr s'"
  then show "missed_signals_x s' = missed_signals_x s"
    using process_bar_x_quiet_missed[of row tc s s'] by simp
qed


theorem bar_values_not_validated_witness:
  "timestamp_x nan_atr_bar_x < no_new_buys_time (timestamp_x nan_atr_bar_x)
   \<and> Buy_Signal_x nan_atr_bar_x
   \<and> free_cash_x (new_day_x nan_atr_bar_x (init_state_x 100)) = Fin 100
   \<and> close_x nan_atr_bar_x = Fin 100 \<and> ATR_x nan_atr_bar_x = NaN
   \<and> has_rates (CHARGES tc_plain) ''BUY''
   \<and> map_sum id (map trailing_stop_loss_x \<circ> long_positions_x)
        (process_bar_x tc_plain nan_atr_bar_x (init_state_x 100)) = Inr [NaN]
   \<and> close_x nan_close_bar_x = NaN
   \<and> map_sum id (map Missed_Reason_x \<circ> missed_signals_x)
        (process_bar_x tc_plain nan_close_bar_x (init_state_x 100))
       = Inr [''Insufficient Funds'']
   \<and> map_sum id long_positions_x (process_bar_x tc_plain nan_close_bar_x (init_state_x 100))
       = Inr []
   \<and> close_x zero_close_bar_x = Fin 0
   \<and> process_bar_x tc_plain zero_close_bar_x (init_state_x 100) = Inl ZeroDivisionError
   \<and> close_x neg_inf_close_bar_x = NInf
   \<and> process_bar_x tc_plain neg_inf_close_bar_x (init_state_x 100)
       = Inr (new_day_x neg_inf_close_bar_x (init_state_x 100))
   \<and> no_new_buys_time (timestamp_x late_zero_close_x) \<le> timestamp_x late_zero_close_x
   \<and> Buy_Signal_x late_zero_close_x \<and> close_x late_zero_close_x = Fin 0
   \<and> map_sum id (map Missed_Reason_x \<circ> missed_signals_x)
        (process_bar_x tc_plain late_zero_close_x (init_state_x 100))
       = Inr [''Buy restricted near market close'']
   \<and> map_sum id long_positions_x (process_bar_x tc_plain late_zero_close_x (init_state_x 100))
       = Inr []
   \<and> has_rates (CHARGES tc_plain) ''SELL''
   \<and> exit_reason_x sell_nan_close_x pos_x = Some ''Sell Signal Triggered''
   \<and> map_sum id (map Price_x \<circ> trades_x)
        (sell_position_x (CHARGES tc_plain) sell_nan_close_x (init_state_x 100) pos_x)
       = Inr [NaN]
   \<and> map_sum id (map Charges_x \<circ> trades_x)
        (square_off_position_x (CHARGES tc_plain) sell_nan_close_x (init_state_x 100) pos_x)
       = Inr [NaN]
   \<and> close_x quiet_nan_close_x = NaN \<and> exit_reason_x quiet_nan_close_x pos_x = None
   \<and> Buy_Signal_x sell_neg_close_x = False
   \<and> map_sum id missed_signals_x (process_bar_x tc_plain sell_neg_close_x (init_state_x 100))
       = Inr []"
proof -
  note ev = engine_x_eval input_x_eval time_eval has_rates_def required_keys_def
  have g1: "timestamp_x nan_atr_bar_x < no_new_buys_time (timestamp_x nan_atr_bar_x)"
    and g2: "Buy_Signal_x nan_atr_bar_x"
    and g3: "free_cash_x (new_day_x nan_atr_bar_x (init_state_x 100)) = Fin 100"
    and g4: "close_x nan_atr_bar_x = Fin 100" and g5: "ATR_x nan_atr_bar_x = NaN"
    and g6: "has_rates (CHARGES tc_plain) ''BUY''"
    by (simp_all add: ev)
  have a1: "close_x nan_atr_bar_x = Fin 100 \<and> 0 < (100 :: real)
      \<and> 100 \<le> 100 * trade_allocation tc_plain * leverage tc_plain
      \<and> has_rates (CHARGES tc_plain) ''BUY''"
    by (simp add: ev)
  from bar_values_not_validated
      [where row = nan_atr_bar_x and s = "init_state_x 100" and f = 100 and tc = tc_plain,
        THEN conjunct1, THEN mp, OF conjI [OF g1 conjI [OF g2 g3]],
        THEN conjunct1, THEN spec, THEN mp, OF a1]
  obtain d :: charges_details_x and s3 where
    s3: "long_positions_x s3 = long_positions_x (new_day_x nan_atr_bar_x (init_state_x 100)) @
           [\<lparr>shares_x = \<lfloor>100 * trade_allocation tc_plain * leverage tc_plain / 100\<rfloor>,
             price_x = Fin 100, buy_charges_x = total_charges_x d,
             margin_used_x = Fin (100 * trade_allocation tc_plain),
             target_price_x = Fin (100 * (1 + target_profit_percentage tc_plain / 100)),
             trailing_stop_loss_x =
               fsub (Fin 100) (fmul (ATR_x nan_atr_bar_x) (Fin (atr_multiplier tc_plain)))\<rparr>]"
      and p1: "process_bar_x tc_plain nan_atr_bar_x (init_state_x 100)
               = sell_logic_x (CHARGES tc_plain) nan_atr_bar_x s3"
    by blast
  have g7: "map_sum id (map trailing_stop_loss_x \<circ> long_positions_x)
        (process_bar_x tc_plain nan_atr_bar_x (init_state_x 100)) = Inr [NaN]"
    unfolding p1
    by (simp add: sell_logic_x_def sell_position_x_def exit_reason_x_def s3 fge_def
          fsub_def new_day_x_def init_state_x_def Let_def input_x_eval time_eval)
  have h2: "timestamp_x nan_close_bar_x < no_new_buys_time (timestamp_x nan_close_bar_x)
      \<and> Buy_Signal_x nan_close_bar_x
      \<and> free_cash_x (new_day_x nan_close_bar_x (init_state_x 100)) = Fin 100"
    by (simp add: ev)
  have g8: "close_x nan_close_bar_x = NaN"
    by (simp add: ev)
  from bar_values_not_validated
      [where row = nan_close_bar_x and s = "init_state_x 100" and f = 100 and tc = tc_plain,
        THEN conjunct1, THEN mp, OF h2, THEN conjunct2, THEN conjunct1, THEN mp,
        OF disjI1 [OF g8]]
  have p2: "process_bar_x tc_plain nan_close_bar_x (init_state_x 100)
         = sell_logic_x (CHARGES tc_plain) nan_close_bar_x
             ((new_day_x nan_close_bar_x (init_state_x 100))
                \<lparr>missed_signals_x := missed_signals_x (init_state_x 100) @
                  [\<lparr>Missed_Time_x = timestamp_x nan_close_bar_x,
                    Missed_Price_x = close_x nan_close_bar_x,
                    Missed_Reason_x = ''Insufficient Funds''\<rparr>]\<rparr>)" .
  have g9: "map_sum id (map Missed_Reason_x \<circ> missed_signals_x)
        (process_bar_x tc_plain nan_close_bar_x (init_state_x 100))
       = Inr [''Insufficient Funds'']"
    and g10: "map_sum id long_positions_x
        (process_bar_x tc_plain nan_close_bar_x (init_state_x 100)) = Inr []"
    unfolding p2
    by (simp_all add: sell_logic_x_def new_day_x_def init_state_x_def Let_def)
  have h3: "timestamp_x zero_close_bar_x < no_new_buys_time (timestamp_x zero_close_bar_x)
      \<and> Buy_Signal_x zero_close_bar_x
      \<and> free_cash_x (new_day_x zero_close_bar_x (init_state_x 100)) = Fin 100"
    by (simp add: ev)
  have g11: "close_x zero_close_bar_x = Fin 0"
    by (simp add: ev)
  have a3: "close_x zero_close_bar_x = Fin 0
      \<and> 0 \<le> 100 * trade_allocation tc_plain * leverage tc_plain"
    by (simp add: ev)
  from bar_values_not_validated
      [where row = zero_close_bar_x and s = "init_state_x 100" and f = 100 and tc = tc_plain,
        THEN conjunct1, THEN mp, OF h3, THEN conjunct2, THEN conjunct2, THEN conjunct1,
        THEN mp, OF a3]
  have g12: "process_bar_x tc_plain zero_close_bar_x (init_state_x 100)
             = Inl ZeroDivisionError" .
  have h4: "timestamp_x neg_inf_close_bar_x
        < no_new_buys_time (timestamp_x neg_inf_close_bar_x)
      \<and> Buy_Signal_x neg_inf_close_bar_x
      \<and> free_cash_x (new_day_x neg_inf_close_bar_x (init_state_x 100)) = Fin 100"
    by (simp add: ev)
  have g13: "close_x neg_inf_close_bar_x = NInf"
    by (simp add: ev)
  from bar_values_not_validated
      [where row = neg_inf_close_bar_x and s = "init_state_x 100" and f = 100
         and tc = tc_plain,
        THEN conjunct1, THEN mp, OF h4, THEN conjunct2, THEN conjunct2, THEN conjunct2,
        THEN mp, OF disjI1 [OF g13]]
  have p4: "process_bar_x tc_plain neg_inf_close_bar_x (init_state_x 100)
            = sell_logic_x (CHARGES tc_plain) neg_inf_close_bar_x
                (new_day_x neg_inf_close_bar_x (init_state_x 100))" .
  have g14: "process_bar_x tc_plain neg_inf_close_bar_x (init_state_x 100)
       = Inr (new_day_x neg_inf_close_bar_x (init_state_x 100))"
    unfolding p4
    by (simp add: sell_logic_x_def new_day_x_def init_state_x_def Let_def)
  have g15: "no_new_buys_time (timestamp_x late_zero_close_x) \<le> timestamp_x late_zero_close_x"
    and g16: "Buy_Signal_x late_zero_close_x" and g17: "close_x late_zero_close_x = Fin 0"
    by (simp_all add: ev)
  from bar_values_not_validated
      [where row = late_zero_close_x and s = "init_state_x 100" and tc = tc_plain,
        THEN conjunct2, THEN conjunct1, THEN mp, OF conjI [OF g15 g16]]
  have p5: "process_bar_x tc_plain late_zero_close_x (init_state_x 100)
          = bind_err (square_off_x (CHARGES tc_plain) late_zero_close_x (init_state_x 100))
              (\<lambda>s1. Inr ((new_day_x late_zero_close_x s1)
                 \<lparr>missed_signals_x := missed_signals_x s1 @
                   [\<lparr>Missed_Time_x = timestamp_x late_zero_close_x,
                     Missed_Price_x = close_x late_zero_close_x,
                     Missed_Reason_x = ''Buy restricted near market close''\<rparr>]\<rparr>))" .
  have g18: "map_sum id (map Missed_Reason_x \<circ> missed_signals_x)
        (process_bar_x tc_plain late_zero_close_x (init_state_x 100))
       = Inr [''Buy restricted near market close'']"
    and g19: "map_sum id long_positions_x
        (process_bar_x tc_plain late_zero_close_x (init_state_x 100)) = Inr []"
    unfolding p5
    by (simp_all add: square_off_x_def new_day_x_def init_state_x_def Let_def)
  have g20: "has_rates (CHARGES tc_plain) ''SELL''"
    and g21: "exit_reason_x sell_nan_close_x pos_x = Some ''Sell Signal Triggered''"
    by (simp_all add: ev)
  have cd: "calculate_transaction_charges_x (close_x sell_nan_close_x) (shares_x pos_x)
              ''SELL'' (CHARGES tc_plain)
            = Inr \<lparr>total_charges_x = NaN, brokerage_x = NaN, stt_x = NaN,
                   transaction_charge_x = NaN, sebi_charge_x = NaN, gst_x = NaN,
                   stamp_duty_x = Fin 0\<rparr>"
    by (simp add: ev)
  from bar_values_not_validated
      [where row = sell_nan_close_x and s = "init_state_x 100" and tc = tc_plain
         and pos = pos_x,
        THEN conjunct2, THEN conjunct2, THEN conjunct1, THEN mp, OF g20]
  obtain d' where d': "calculate_transaction_charges_x (close_x sell_nan_close_x)
        (shares_x pos_x) ''SELL'' (CHARGES tc_plain) = Inr d'"
    and sp: "\<forall>r. exit_reason_x sell_nan_close_x pos_x = Some r \<longrightarrow>
        (\<exists>s'. sell_position_x (CHARGES tc_plain) sell_nan_close_x (init_state_x 100) pos_x
                = Inr s'
           \<and> trades_x s' = trades_x (init_state_x 100) @
               [\<lparr>Time_x = timestamp_x sell_nan_close_x, Type_x = ''Sell'',
                 Price_x = close_x sell_nan_close_x, Shares_x = shares_x pos_x,
                 Profit_Loss_x =
                   fsub (fsub (fmul (Fin (of_int (shares_x pos_x))) (close_x sell_nan_close_x))
                           (total_charges_x d'))
                     (fadd (fmul (Fin (of_int (shares_x pos_x))) (price_x pos_x))
                        (buy_charges_x pos_x)),
                 Charges_x = total_charges_x d', Brokerage_x = brokerage_x d',
                 STT_x = stt_x d', Transaction_Charge_x = transaction_charge_x d',
                 SEBI_Charge_x = sebi_charge_x d', GST_x = gst_x d',
                 Stamp_Duty_x = stamp_duty_x d', Reason_x = r\<rparr>]
           \<and> long_positions_x s' = remove1 pos_x (long_positions_x (init_state_x 100)))"
    and sq: "\<exists>s'. square_off_position_x (CHARGES tc_plain) sell_nan_close_x
                    (init_state_x 100) pos_x = Inr s'
           \<and> trades_x s' = trades_x (init_state_x 100) @
               [\<lparr>Time_x = timestamp_x sell_nan_close_x, Type_x = ''Square Off'',
                 Price_x = close_x sell_nan_close_x, Shares_x = shares_x pos_x,
                 Profit_Loss_x =
                   fsub (fsub (fmul (Fin (of_int (shares_x pos_x))) (close_x sell_nan_close_x))
                           (total_charges_x d'))
                     (fadd (fmul (Fin (of_int (shares_x pos_x))) (price_x pos_x))
                        (buy_charges_x pos_x)),
                 Charges_x = total_charges_x d', Brokerage_x = brokerage_x d',
                 STT_x = stt_x d', Transaction_Charge_x = transaction_charge_x d',
                 SEBI_Charge_x = sebi_charge_x d', GST_x = gst_x d',
                 Stamp_Duty_x = stamp_duty_x d',
                 Reason_x = ''Square Off Before Market Close''\<rparr>]
           \<and> long_positions_x s' = remove1 pos_x (long_positions_x (init_state_x 100))"
    by blast
  from d' cd have tot: "total_charges_x d' = NaN"
    by auto
  from sp [THEN spec, THEN mp, OF g21] obtain s' where
    "sell_position_x (CHARGES tc_plain) sell_nan_close_x (init_state_x 100) pos_x = Inr s'"
    and "map Price_x (trades_x s') = map Price_x (trades_x (init_state_x 100))
           @ [close_x sell_nan_close_x]"
    by auto
  then have g22: "map_sum id (map Price_x \<circ> trades_x)
        (sell_position_x (CHARGES tc_plain) sell_nan_close_x (init_state_x 100) pos_x)
       = Inr [NaN]"
    by (simp add: init_state_x_def sell_nan_close_x_def)
  from sq obtain s'' where
    "square_off_position_x (CHARGES tc_plain) sell_nan_close_x (init_state_x 100) pos_x
       = Inr s''"
    and "map Charges_x (trades_x s'') = map Charges_x (trades_x (init_state_x 100))
           @ [total_charges_x d']"
    by auto
  then have g23: "map_sum id (map Charges_x \<circ> trades_x)
        (square_off_position_x (CHARGES tc_plain) sell_nan_close_x (init_state_x 100) pos_x)
       = Inr [NaN]"
    by (simp add: init_state_x_def tot)
  have g24: "close_x quiet_nan_close_x = NaN"
    and nq: "\<not> Sell_Signal_x quiet_nan_close_x"
    and tq: "timestamp_x quiet_nan_close_x < square_off_time (timestamp_x quiet_nan_close_x)"
    by (simp_all add: ev)
  from bar_values_not_validated
      [where row = quiet_nan_close_x and pos = pos_x,
        THEN conjunct2, THEN conjunct2, THEN conjunct2, THEN conjunct1, THEN mp,
        OF conjI [OF g24 conjI [OF nq tq]]]
  have g25: "exit_reason_x quiet_nan_close_x pos_x = None" .
  have g26: "Buy_Signal_x sell_neg_close_x = False"
    by (simp add: ev)
  have r8: "process_bar_x tc_plain sell_neg_close_x (init_state_x 100)
            = Inr (new_day_x sell_neg_close_x (init_state_x 100))"
    by (simp add: process_bar_x_def square_off_x_def buy_logic_x_def sell_logic_x_def
          new_day_x_def init_state_x_def Let_def sell_neg_close_x_def)
  from g26 r8 have a8: "\<not> Buy_Signal_x sell_neg_close_x
      \<and> process_bar_x tc_plain sell_neg_close_x (init_state_x 100)
          = Inr (new_day_x sell_neg_close_x (init_state_x 100))"
    by simp
  from bar_values_not_validated
      [where row = sell_neg_close_x and s = "init_state_x 100" and tc = tc_plain,
        THEN conjunct2, THEN conjunct2, THEN conjunct2, THEN conjunct2, THEN spec, THEN mp,
        OF a8]
  have "missed_signals_x (new_day_x sell_neg_close_x (init_state_x 100))
        = missed_signals_x (init_state_x 100)" .
  then have g27: "map_sum id missed_signals_x
        (process_bar_x tc_plain sell_neg_close_x (init_state_x 100)) = Inr []"
    unfolding r8
    by (simp add: init_state_x_def)
  note gs = g1 g2 g3 g4 g5 g6 g7 g8 g9 g10 g11 g12 g13 g14 g15 g16 g17 g18 g19 g20 g21 g22
    g23 g24 g25 g26 g27
  show ?thesis
    by (intro conjI; fact gs)
qed


section \<open>Free cash\<close>

text \<open>
  C4, as stated, fails. With allocation 1 and leverage 5, capital 100 buys 5 shares at 100;
  the next bar closes at 50 and the trailing stop sells them at a loss of 250, so capital
  is -150. The first bar of the next day resets free cash to capital: free cash is -150
  at that observation point, and no buy was rejected.
\<close>

theorem free_cash_negative_counterexample:
  "0 \<le> trade_allocation tc_lev5 \<and> trade_allocation tc_lev5 \<le> 1
   \<and> map_sum id free_cash
         (run_bars tc_lev5 (init_state 100) [buy_0920, fall_0925, quiet_next_day])
       = Inr (- 150)
   \<and> map_sum id missed_signals
         (run_bars tc_lev5 (init_state 100) [buy_0920, fall_0925, quiet_next_day]) = Inr []"
  by (simp add: engine_eval input_eval time_eval charges_eval)

lemma sell_charges_le_turnover:
  assumes bnd: "sell_charges_bounded cc"
    and c: "calculate_transaction_charges p q ''SELL'' cc = Inr d"
    and T: "0 \<le> p * of_int q"
  shows "total_charges d \<le> p * of_int q"
proof -
  from calc_Inr_D[OF c] obtain rates b s t e g where
    rs: "cc ''SELL'' = Some rates" "rates ''BROKERAGE'' = Some b" "rates ''STT'' = Some s"
      "rates ''TRANSACTION'' = Some t" "rates ''SEBI'' = Some e" "rates ''GST'' = Some g"
    and v: "brokerage d = min (p * of_int q * (b / 100)) 20"
      "stt d = p * of_int q * (s / 100)"
      "transaction_charge d = p * of_int q * (t / 100)"
      "sebi_charge d = p * of_int q * (e / 100)"
      "gst d = (brokerage d + transaction_charge d + sebi_charge d) * (g / 100)"
    and sd: "stamp_duty d = 0"
    and tot: "total_charges d = brokerage d + stt d + transaction_charge d + sebi_charge d
                            + gst d + stamp_duty d"
    by auto
  define X where "X = p * of_int q"
  from bnd have nn: "rates_nonneg cc ''SELL''" by (simp add: sell_charges_bounded_def)
  have pos: "0 \<le> b" "0 \<le> s" "0 \<le> t" "0 \<le> e" "0 \<le> g"
    using rates_nonnegD[OF nn rs(1)] rs(2-6) by (simp_all add: rate_keys_def)
  from bnd rs have sum: "b + s + t + e + (b + t + e) * (g / 100) \<le> 100"
    by (simp add: sell_charges_bounded_def rate_def)
  have X: "0 \<le> X" using T by (simp add: X_def)
  have br: "brokerage d \<le> X * (b / 100)"
    unfolding v X_def by simp
  have st: "stt d = X * (s / 100)" and tr: "transaction_charge d = X * (t / 100)"
    and se: "sebi_charge d = X * (e / 100)"
    unfolding v X_def by simp_all
  have fees: "brokerage d + transaction_charge d + sebi_charge d
      \<le> X * (b / 100) + X * (t / 100) + X * (e / 100)"
    using br tr se by linarith
  have g0: "0 \<le> g / 100" using pos(5) by simp
  have gs: "gst d \<le> (X * (b / 100) + X * (t / 100) + X * (e / 100)) * (g / 100)"
    unfolding v(5) by (rule mult_right_mono[OF fees g0])
  have "total_charges d \<le> X * (b / 100) + X * (s / 100) + X * (t / 100) + X * (e / 100)
      + (X * (b / 100) + X * (t / 100) + X * (e / 100)) * (g / 100)"
    using tot sd br st tr se gs by linarith
  also have "\<dots> = X * ((b + s + t + e + (b + t + e) * (g / 100)) / 100)"
    by (simp add: algebra_simps)
  also have "\<dots> \<le> X * 1"
    using sum X by (intro mult_left_mono) simp_all
  finally show ?thesis by (simp add: X_def)
qed


lemma exit_keeps_ledger_ok:
  assumes ok: "ledger_ok s"
    and p: "0 \<le> margin_used pos" "0 < shares pos"
    and px: "0 \<le> close row"
    and bnd: "sell_charges_bounded cc"
    and c: "calculate_transaction_charges (close row) (shares pos) ''SELL'' cc = Inr d"
    and fc: "free_cash s1 = free_cash s
          + (margin_used pos + (of_int (shares pos) * close row - total_charges d))"
    and lp: "long_positions s1 = remove1 pos (long_positions s)"
  shows "ledger_ok s1"
proof -
  have "0 \<le> close row * of_int (shares pos)"
    using p(2) px by simp
  from sell_charges_le_turnover[OF bnd c this]
  have "total_charges d \<le> of_int (shares pos) * close row"
    by (simp add: mult.commute)
  with ok p(1) fc have "0 \<le> free_cash s1"
    by (simp add: ledger_ok_def)
  moreover have "list_all (\<lambda>p. 0 \<le> margin_used p \<and> 0 < shares p) (long_positions s1)"
    using ok lp by (auto simp: ledger_ok_def list_all_iff dest: notin_set_remove1)
  ultimately show ?thesis by (simp add: ledger_ok_def)
qed

lemma square_off_loop_ok:
  assumes "square_off_loop cc row s ps = Inr s'" and "ledger_ok s"
    and "list_all (\<lambda>p. 0 \<le> margin_used p \<and> 0 < shares p) ps"
    and "0 \<le> close row" and "sell_charges_bounded cc"
  shows "ledger_ok s'"
  using assms(1-3)
proof (induction ps arbitrary: s)
  case Nil
  then show ?case by simp
next
  case (Cons pos rest)
  from Cons.prems(1) obtain s1 where
    s1: "square_off_position cc row s pos = Inr s1" and
    rest: "square_off_loop cc row s1 rest = Inr s'"
    by (auto simp: bind_err_Inr_iff)
  from square_off_position_D[OF s1] obtain d where
    d: "calculate_transaction_charges (close row) (shares pos) ''SELL'' cc = Inr d"
      "free_cash s1 = free_cash s
          + (margin_used pos + (of_int (shares pos) * close row - total_charges d))"
      "long_positions s1 = remove1 pos (long_positions s)"
    by blast
  from Cons.prems(3) have p: "0 \<le> margin_used pos" "0 < shares pos"
    and r: "list_all (\<lambda>p. 0 \<le> margin_used p \<and> 0 < shares p) rest"
    by simp_all
  have "ledger_ok s1"
    by (rule exit_keeps_ledger_ok[OF Cons.prems(2) p assms(4,5) d])
  from Cons.IH[OF rest this r] show ?case .
qed

lemma sell_loop_ok:
  assumes "sell_loop cc row s ps = Inr s'" and "ledger_ok s"
    and "list_all (\<lambda>p. 0 \<le> margin_used p \<and> 0 < shares p) ps"
    and "0 \<le> close row" and "sell_charges_bounded cc"
  shows "ledger_ok s'"
  using assms(1-3)
proof (induction ps arbitrary: s)
  case Nil
  then show ?case by simp
next
  case (Cons pos rest)
  from Cons.prems(1) obtain s1 where
    s1: "sell_position cc row s pos = Inr s1" and
    rest: "sell_loop cc row s1 rest = Inr s'"
    by (auto simp: bind_err_Inr_iff)
  from Cons.prems(3) have p: "0 \<le> margin_used pos" "0 < shares pos"
    and r: "list_all (\<lambda>p. 0 \<le> margin_used p \<and> 0 < shares p) rest"
    by simp_all
  have "ledger_ok s1"
  proof (cases "exit_reason row pos")
    case None
    with s1 Cons.prems(2) show ?thesis by (simp add: sell_position_None)
  next
    case (Some reason)
    from sell_position_D[OF s1 Some] obtain d where
      d: "calculate_transaction_charges (close row) (shares pos) ''SELL'' cc = Inr d"
        "free_cash s1 = free_cash s
            + (margin_used pos + (of_int (shares pos) * close row - total_charges d))"
        "long_positions s1 = remove1 pos (long_positions s)"
      by blast
    show ?thesis
      by (rule exit_keeps_ledger_ok[OF Cons.prems(2) p assms(4,5) d])
  qed
  from Cons.IH[OF rest this r] show ?case .
qed

lemma square_off_ok:
  assumes "square_off cc row s = Inr s1" and "ledger_ok s"
    and "0 \<le> close row" and "sell_charges_bounded cc"
  shows "ledger_ok s1"
proof (cases "timestamp row \<ge> square_off_time (timestamp row) \<and> long_positions s \<noteq> []")
  case True
  with assms(1) have l: "square_off_loop cc row s (long_positions s) = Inr s1"
    by (simp add: square_off_def)
  from assms(2) have "list_all (\<lambda>p. 0 \<le> margin_used p \<and> 0 < shares p) (long_positions s)"
    by (simp add: ledger_ok_def)
  from square_off_loop_ok[OF l assms(2) this assms(3,4)] show ?thesis .
next
  case False
  with assms(1) have "s1 = s" by (auto simp: square_off_def)
  with assms(2) show ?thesis by simp
qed

lemma sell_logic_ok:
  assumes "sell_logic cc row s = Inr s'" and "ledger_ok s"
    and "0 \<le> close row" and "sell_charges_bounded cc"
  shows "ledger_ok s'"
proof (cases "long_positions s = []")
  case True
  with assms(1,2) show ?thesis by (simp add: sell_logic_def)
next
  case False
  with assms(1) have l: "sell_loop cc row s (long_positions s) = Inr s'"
    by (simp add: sell_logic_def)
  from assms(2) have "list_all (\<lambda>p. 0 \<le> margin_used p \<and> 0 < shares p) (long_positions s)"
    by (simp add: ledger_ok_def)
  from sell_loop_ok[OF l assms(2) this assms(3,4)] show ?thesis .
qed

lemma buy_logic_ok:
  assumes b: "buy_logic tc row s = Inr s'" and ok: "ledger_ok s"
    and a: "0 \<le> trade_allocation tc" "trade_allocation tc \<le> 1"
  shows "ledger_ok s'"
proof -
  have m: "0 \<le> free_cash s * trade_allocation tc"
    using ok a(1) by (simp add: ledger_ok_def)
  have "free_cash s * trade_allocation tc \<le> free_cash s * 1"
    using ok a(2) by (intro mult_left_mono) (simp_all add: ledger_ok_def)
  then have f: "0 \<le> free_cash s - free_cash s * trade_allocation tc"
    by simp
  from b ok m f show ?thesis
    by (auto simp: buy_logic_def Let_def bind_err_Inr_iff ledger_ok_def split: if_splits)
qed

lemma new_day_ok:
  assumes "ledger_ok s"
    and "current_day s = Some (trade_day (timestamp row)) \<or> 0 \<le> capital s"
  shows "ledger_ok (new_day row s)"
  using assms by (auto simp: new_day_def Let_def ledger_ok_def split: option.splits)

lemma missed_ok:
  "ledger_ok s \<Longrightarrow> ledger_ok (s\<lparr>missed_signals := m\<rparr>)"
  by (simp add: ledger_ok_def)

lemma process_bar_ok:
  assumes p: "process_bar tc row s = Inr s'" and ok: "ledger_ok s"
    and cap: "0 \<le> capital s" "0 \<le> capital s'"
    and a: "0 \<le> trade_allocation tc" "trade_allocation tc \<le> 1"
    and px: "0 \<le> close row" and bnd: "sell_charges_bounded (CHARGES tc)"
  shows "ledger_ok s'"
proof -
  from p obtain s1 where s1: "square_off (CHARGES tc) row s = Inr s1"
    by (auto simp: process_bar_def bind_err_Inr_iff)
  have ok1: "ledger_ok s1"
    by (rule square_off_ok[OF s1 ok px bnd])
  have cap1: "0 \<le> capital s1"
  proof (cases "square_off_time (timestamp row) \<le> timestamp row")
    case True
    from process_bar_late[OF True s1] p have "capital s' = capital s1"
      by (auto simp: new_day_fields split: if_splits)
    with cap(2) show ?thesis by simp
  next
    case False
    with s1 have "s1 = s" by (simp add: square_off_def)
    with cap(1) show ?thesis by simp
  qed
  let ?s2 = "new_day row s1"
  have ok2: "ledger_ok ?s2"
    using ok1 cap1 by (simp add: new_day_ok)
  show ?thesis
  proof (cases "timestamp row \<ge> no_new_buys_time (timestamp row) \<and> Buy_Signal row")
    case True
    with p s1 ok2 show ?thesis
      by (auto simp: process_bar_def Let_def missed_ok)
  next
    case False
    with p s1 obtain s3 where
      s3: "buy_logic tc row ?s2 = Inr s3" and s4: "sell_logic (CHARGES tc) row s3 = Inr s'"
      by (auto simp: process_bar_def Let_def bind_err_Inr_iff)
    have "ledger_ok s3" by (rule buy_logic_ok[OF s3 ok2 a])
    from sell_logic_ok[OF s4 this px bnd] show ?thesis .
  qed
qed

lemma run_trace_ok:
  assumes a: "0 \<le> trade_allocation tc" "trade_allocation tc \<le> 1"
    and bnd: "sell_charges_bounded (CHARGES tc)"
  shows "ledger_ok s \<Longrightarrow> \<forall>row \<in> set rows. 0 \<le> close row
     \<Longrightarrow> \<forall>x \<in> set (run_trace tc s rows). 0 \<le> capital x
     \<Longrightarrow> \<forall>x \<in> set (run_trace tc s rows). ledger_ok x"
proof (induction rows arbitrary: s)
  case Nil
  then show ?case by simp
next
  case (Cons row rows)
  show ?case
  proof (cases "process_bar tc row s")
    case (Inl e)
    with Cons.prems(1) show ?thesis by simp
  next
    case (Inr s')
    have t: "run_trace tc s (row # rows) = s # run_trace tc s' rows"
      using Inr by simp
    have s'_in: "s' \<in> set (run_trace tc s' rows)"
      by (cases rows) simp_all
    from Cons.prems(3)[unfolded t] s'_in have cap: "0 \<le> capital s" "0 \<le> capital s'"
      and rest: "\<forall>x \<in> set (run_trace tc s' rows). 0 \<le> capital x"
      by simp_all
    from Cons.prems(2) have px: "0 \<le> close row" and pxs: "\<forall>row \<in> set rows. 0 \<le> close row"
      by simp_all
    have "ledger_ok s'"
      by (rule process_bar_ok[OF Inr Cons.prems(1) cap a px bnd])
    from Cons.IH[OF this pxs rest] Cons.prems(1) show ?thesis unfolding t by simp
  qed
qed

lemma buy_logic_free_cash:
  assumes "buy_logic tc row s = Inr s'"
  shows "(free_cash s' = free_cash s - free_cash s * trade_allocation tc
            \<or> free_cash s' = free_cash s)
    \<and> (missed_signals s' \<noteq> missed_signals s \<longrightarrow>
           free_cash s * trade_allocation tc * leverage tc < close row)"
  using assms
  by (auto simp: buy_logic_def Let_def bind_err_Inr_iff split: if_splits)

text \<open>
  C4, amended. For a run with trade allocation in [0,1], non-negative initial capital,
  non-negative close prices and SELL charges that never exceed the turnover, free cash is
  non-negative at every observation point as long as capital is non-negative at every
  observation point. The buy logic leaves free cash unchanged or deducts the allocated
  margin free_cash * trade_allocation, and records a missed signal only when the
  leveraged buying power is below the price; an exit (Sell or Square Off) adds the
  position's margin and the net sale proceeds; the day rollover assigns capital to free
  cash.
\<close>

theorem free_cash_nonneg_while_capital_nonneg:
  assumes "0 \<le> trade_allocation tc" and "trade_allocation tc \<le> 1"
    and "0 \<le> initial_capital"
    and "sell_charges_bounded (CHARGES tc)"
    and "\<forall>row \<in> set rows. 0 \<le> close row"
    and "\<forall>s \<in> set (run_trace tc (init_state initial_capital) rows). 0 \<le> capital s"
  shows "(\<forall>s \<in> set (run_trace tc (init_state initial_capital) rows). 0 \<le> free_cash s)
    \<and> (\<forall>row s s'. buy_logic tc row s = Inr s' \<longrightarrow>
           (free_cash s' = free_cash s - free_cash s * trade_allocation tc
              \<or> free_cash s' = free_cash s)
           \<and> (missed_signals s' \<noteq> missed_signals s \<longrightarrow>
                  free_cash s * trade_allocation tc * leverage tc < close row))
    \<and> (\<forall>row s pos s' reason.
           sell_position (CHARGES tc) row s pos = Inr s' \<and> exit_reason row pos = Some reason
           \<longrightarrow> (\<exists>d. calculate_transaction_charges (close row) (shares pos) ''SELL''
                       (CHARGES tc) = Inr d
                  \<and> free_cash s' = free_cash s
                       + (margin_used pos
                            + (of_int (shares pos) * close row - total_charges d))))
    \<and> (\<forall>row s pos s'.
           square_off_position (CHARGES tc) row s pos = Inr s'
           \<longrightarrow> (\<exists>d. calculate_transaction_charges (close row) (shares pos) ''SELL''
                       (CHARGES tc) = Inr d
                  \<and> free_cash s' = free_cash s
                       + (margin_used pos
                            + (of_int (shares pos) * close row - total_charges d))))
    \<and> (\<forall>row s. current_day s \<noteq> Some (trade_day (timestamp row)) \<longrightarrow>
           free_cash (new_day row s) = capital s)"
proof (intro conjI allI impI)
  have "ledger_ok (init_state initial_capital)"
    using assms(3) by (simp add: ledger_ok_def init_state_def)
  from run_trace_ok[OF assms(1,2,4) this assms(5,6)]
  show "\<forall>s \<in> set (run_trace tc (init_state initial_capital) rows). 0 \<le> free_cash s"
    by (simp add: ledger_ok_def)
next
  fix row s s'
  assume "buy_logic tc row s = Inr s'"
  from buy_logic_free_cash[OF this]
  show "free_cash s' = free_cash s - free_cash s * trade_allocation tc
              \<or> free_cash s' = free_cash s"
    by simp
next
  fix row s s'
  assume "buy_logic tc row s = Inr s'" and "missed_signals s' \<noteq> missed_signals s"
  with buy_logic_free_cash[of tc row s s']
  show "free_cash s * trade_allocation tc * leverage tc < close row"
    by simp
next
  fix row s pos s' reason
  assume "sell_position (CHARGES tc) row s pos = Inr s' \<and> exit_reason row pos = Some reason"
  then have a: "sell_position (CHARGES tc) row s pos = Inr s'"
    and b: "exit_reason row pos = Some reason"
    by simp_all
  from sell_position_D[OF a b]
  show "\<exists>d. calculate_transaction_charges (close row) (shares pos) ''SELL''
                       (CHARGES tc) = Inr d
                  \<and> free_cash s' = free_cash s
                       + (margin_used pos
                            + (of_int (shares pos) * close row - total_charges d))"
    by blast
next
  fix row s pos s'
  assume "square_off_position (CHARGES tc) row s pos = Inr s'"
  from square_off_position_D[OF this]
  show "\<exists>d. calculate_transaction_charges (close row) (shares pos) ''SELL''
                       (CHARGES tc) = Inr d
                  \<and> free_cash s' = free_cash s
                       + (margin_used pos
                            + (of_int (shares pos) * close row - total_charges d))"
    by blast
next
  fix row :: bar and s :: engine_state
  assume "current_day s \<noteq> Some (trade_day (timestamp row))"
  then show "free_cash (new_day row s) = capital s"
    by (rule new_day_rollover(3))
qed

theorem free_cash_nonneg_while_capital_nonneg_witness:
  "0 \<le> trade_allocation tc_sample \<and> trade_allocation tc_sample \<le> 1
   \<and> (0 :: real) \<le> 1000
   \<and> sell_charges_bounded (CHARGES tc_sample)
   \<and> list_all (\<lambda>row. 0 \<le> close row) [buy_0920, rise_1000, quiet_next_day]
   \<and> list_all (\<lambda>s. 0 \<le> capital s)
        (run_trace tc_sample (init_state 1000) [buy_0920, rise_1000, quiet_next_day])
   \<and> list_all (\<lambda>s. 0 \<le> free_cash s)
        (run_trace tc_sample (init_state 1000) [buy_0920, rise_1000, quiet_next_day])
   \<and> length (run_trace tc_sample (init_state 1000) [buy_0920, rise_1000, quiet_next_day]) = 4"
proof -
  have h1: "0 \<le> trade_allocation tc_sample" and h2: "trade_allocation tc_sample \<le> 1"
    by (simp_all add: tc_sample_def)
  have h3: "(0 :: real) \<le> 1000" by simp
  have h4: "sell_charges_bounded (CHARGES tc_sample)"
    by (simp add: sell_charges_bounded_def rates_nonneg_def rate_keys_def tc_sample_def
          rate_def sample_charges_def sample_rates_def)
  have h5: "\<forall>row \<in> set [buy_0920, rise_1000, quiet_next_day]. 0 \<le> close row"
    by (simp add: input_eval)
  have h6: "\<forall>s \<in> set (run_trace tc_sample (init_state 1000)
        [buy_0920, rise_1000, quiet_next_day]). 0 \<le> capital s"
    by (simp add: engine_eval input_eval time_eval charges_eval)
  have l: "length (run_trace tc_sample (init_state 1000)
      [buy_0920, rise_1000, quiet_next_day]) = 4"
    by (simp add: engine_eval input_eval time_eval charges_eval)
  from free_cash_nonneg_while_capital_nonneg [OF h1 h2 h3 h4 h5 h6]
  have "\<forall>s \<in> set (run_trace tc_sample (init_state 1000)
        [buy_0920, rise_1000, quiet_next_day]). 0 \<le> free_cash s"
    by (rule conjunct1)
  with h1 h2 h4 h5 h6 l show ?thesis by (simp add: list_all_iff)
qed

end
